theory Spec2Isabelle
  imports Main "HOL-Library.Sublist"
begin

section \<open>JavaScript string operations used by the monitor\<close>

text \<open>
  Strings are character lists. \<^verbatim>\<open>s.startsWith(p)\<close> is the prefix test and
  \<^verbatim>\<open>s.includes(sub)\<close> the test for a contiguous occurrence of \<open>sub\<close> in \<open>s\<close>.
\<close>

definition startsWith :: "string \<Rightarrow> string \<Rightarrow> bool" where
  "startsWith s p = prefix p s"

fun str_includes :: "string \<Rightarrow> string \<Rightarrow> bool" where
  "str_includes [] sub = (sub = [])"
| "str_includes (c # cs) sub = (prefix sub (c # cs) \<or> str_includes cs sub)"

text \<open>
  \<^verbatim>\<open>s.toLowerCase()\<close>, on the letters A to Z; every other character is kept (the
  model does not fold letters outside ASCII).
\<close>

definition toLowerCase_char :: "char \<Rightarrow> char" where
  "toLowerCase_char c =
     (case map_of (zip ''ABCDEFGHIJKLMNOPQRSTUVWXYZ'' ''abcdefghijklmnopqrstuvwxyz'') c of
        Some l \<Rightarrow> l
      | None \<Rightarrow> c)"

definition toLowerCase :: "string \<Rightarrow> string" where
  "toLowerCase s = map toLowerCase_char s"

section \<open>Chrome instances found on the Windows side\<close>

text \<open>
  \<^verbatim>\<open>scanChromeInstances\<close> (src/os/wsl/chrome.mjs) returns objects
  \<^verbatim>\<open>{port, profile, bindAddress}\<close>. The port comes from \<^verbatim>\<open>parseInt\<close> of a
  \<^verbatim>\<open>\d+\<close> match, so it is a natural number.
\<close>

record chrome_instance =
  port :: nat
  profile :: string
  bindAddress :: string

subsection \<open>findProjectChrome\<close>

text \<open>
  The result object \<^verbatim>\<open>{found, instance, matchType}\<close>; \<^verbatim>\<open>matchType\<close> is one of
  the strings 'none', 'exact', 'legacy', 'accessible', 'first'.
\<close>

datatype matchType = MatchNone | Exact | Legacy | Accessible | First

record projectMatch =
  found :: bool
  matched_instance :: "chrome_instance option"
  matchType :: matchType

text \<open>
  \<^verbatim>\<open>getProfileIdFromProjectDir(projectDir)\<close> is defined in another module
  (utils/profile-id.mjs); its two results \<open>projectName\<close> and \<open>expectedProfileId\<close> are
  parameters here.

  \<^verbatim>\<open>
  for (const inst of instances) {
    const instProfile = inst.profile.toLowerCase();
    if (instProfile.includes('browsermonitor') && instProfile.includes(expectedProfileId))
      return { found: true, instance: inst, matchType: 'exact' };
    if (instProfile.includes('puppeteer-monitor') && instProfile.includes(expectedProfileId))
      return { found: true, instance: inst, matchType: 'exact' };
    if (instProfile.includes(projectName.toLowerCase()) &&
        (instProfile.includes('.puppeteer-profile') || instProfile.includes('browsermonitor')
         || instProfile.includes('puppeteer-monitor')))
      return { found: true, instance: inst, matchType: 'legacy' };
  }
  \<close>
  \<open>None\<close> stands for the loop running to its end without a \<^verbatim>\<open>return\<close>.
\<close>

fun findProjectChrome_loop :: "string \<Rightarrow> string \<Rightarrow> chrome_instance list \<Rightarrow> projectMatch option" where
  "findProjectChrome_loop projectName expectedProfileId [] = None"
| "findProjectChrome_loop projectName expectedProfileId (inst # rest) =
     (let instProfile = toLowerCase (profile inst) in
      if str_includes instProfile ''browsermonitor'' \<and> str_includes instProfile expectedProfileId
      then Some \<lparr>found = True, matched_instance = Some inst, matchType = Exact\<rparr>
      else if str_includes instProfile ''puppeteer-monitor'' \<and> str_includes instProfile expectedProfileId
      then Some \<lparr>found = True, matched_instance = Some inst, matchType = Exact\<rparr>
      else if str_includes instProfile (toLowerCase projectName) \<and>
              (str_includes instProfile ''.puppeteer-profile'' \<or>
               str_includes instProfile ''browsermonitor'' \<or>
               str_includes instProfile ''puppeteer-monitor'')
      then Some \<lparr>found = True, matched_instance = Some inst, matchType = Legacy\<rparr>
      else findProjectChrome_loop projectName expectedProfileId rest)"

text \<open>
  \<^verbatim>\<open>
  if (!instances || instances.length === 0)
    return { found: false, instance: null, matchType: 'none' };
  ... the loop ...
  const accessibleInst = instances.find(i => i.bindAddress === '0.0.0.0');
  if (accessibleInst) return { found: false, instance: accessibleInst, matchType: 'accessible' };
  return { found: false, instance: instances[0], matchType: 'first' };
  \<close>
\<close>

definition findProjectChrome :: "chrome_instance list \<Rightarrow> string \<Rightarrow> string \<Rightarrow> projectMatch" where
  "findProjectChrome instances projectName expectedProfileId =
     (case instances of
        [] \<Rightarrow> \<lparr>found = False, matched_instance = None, matchType = MatchNone\<rparr>
      | first_inst # _ \<Rightarrow>
          (case findProjectChrome_loop projectName expectedProfileId instances of
             Some m \<Rightarrow> m
           | None \<Rightarrow>
               (case find (\<lambda>i. bindAddress i = ''0.0.0.0'') instances of
                  Some accessibleInst \<Rightarrow>
                    \<lparr>found = False, matched_instance = Some accessibleInst, matchType = Accessible\<rparr>
                | None \<Rightarrow>
                    \<lparr>found = False, matched_instance = Some first_inst, matchType = First\<rparr>)))"

text \<open>The two kinds of profile match, as the conditions of the loop state them.\<close>

definition exactProfileMatch :: "string \<Rightarrow> chrome_instance \<Rightarrow> bool" where
  "exactProfileMatch expectedProfileId inst =
     (str_includes (toLowerCase (profile inst)) expectedProfileId \<and>
      (str_includes (toLowerCase (profile inst)) ''browsermonitor'' \<or>
       str_includes (toLowerCase (profile inst)) ''puppeteer-monitor''))"

definition legacyNameMatch :: "string \<Rightarrow> chrome_instance \<Rightarrow> bool" where
  "legacyNameMatch projectName inst =
     (str_includes (toLowerCase (profile inst)) (toLowerCase projectName) \<and>
      (str_includes (toLowerCase (profile inst)) ''.puppeteer-profile'' \<or>
       str_includes (toLowerCase (profile inst)) ''browsermonitor'' \<or>
       str_includes (toLowerCase (profile inst)) ''puppeteer-monitor''))"

subsection \<open>findFreeDebugPort\<close>

text \<open>
  \<^verbatim>\<open>
  export function findFreeDebugPort(instances, startPort = 9222) {
    const usedPorts = new Set(instances.map(i => i.port));
    for (let port = startPort; port < startPort + 100; port++) {
      if (!usedPorts.has(port)) { return port; }
    }
    return startPort;
  }
  \<close>
  The \<^verbatim>\<open>for\<close> loop is the recursion on the loop variable \<open>port\<close>.
\<close>

function findFreeDebugPort_loop :: "nat set \<Rightarrow> nat \<Rightarrow> nat \<Rightarrow> nat" where
  "findFreeDebugPort_loop usedPorts startPort p =
     (if p < startPort + 100
      then (if p \<notin> usedPorts then p
            else findFreeDebugPort_loop usedPorts startPort (p + 1))
      else startPort)"
  by pat_completeness auto
termination
  by (relation "measure (\<lambda>(u, s, p). s + 100 - p)") auto

declare findFreeDebugPort_loop.simps [simp del]

definition findFreeDebugPort :: "chrome_instance list \<Rightarrow> nat \<Rightarrow> nat" where
  "findFreeDebugPort instances startPort =
     findFreeDebugPort_loop (set (map port instances)) startPort startPort"

section \<open>Terminating managed Chrome processes\<close>

text \<open>
  White space as \<^verbatim>\<open>String.prototype.trim\<close> and the regular expression class
  \<^verbatim>\<open>\s\<close> see it, and decimal digits as \<^verbatim>\<open>\d\<close> does, on ASCII: space, tab,
  line feed, vertical tab, form feed, carriage return.
\<close>

definition isSpace :: "char \<Rightarrow> bool" where
  "isSpace c = (c \<in> set [CHR '' '', CHR 0x09, CHR 0x0A, CHR 0x0B, CHR 0x0C, CHR 0x0D])"

definition isDigit :: "char \<Rightarrow> bool" where
  "isDigit c = (c \<in> set ''0123456789'')"

definition trim :: "string \<Rightarrow> string" where
  "trim s = rev (dropWhile isSpace (rev (dropWhile isSpace s)))"

text \<open>\<^verbatim>\<open>s.split('\n')\<close>: the pieces between line feeds; a string without one is one piece.\<close>

fun split_newline :: "string \<Rightarrow> string list" where
  "split_newline [] = [[]]"
| "split_newline (c # cs) =
     (if c = CHR 0x0A then [] # split_newline cs
      else (case split_newline cs of
              l # ls \<Rightarrow> (c # l) # ls
            | [] \<Rightarrow> [[c]]))"

text \<open>
  \<^verbatim>\<open>line.match(/(\d+)\s*$/)\<close>: the match is the last run of digits of the line, when
  only white space follows it; the group is that run. \<open>None\<close> is \<^verbatim>\<open>null\<close>.
\<close>

definition pidMatch :: "string \<Rightarrow> string option" where
  "pidMatch line =
     (let digits = rev (takeWhile isDigit (dropWhile isSpace (rev line)))
      in if digits = [] then None else Some digits)"

text \<open>
  The profile marker of the monitor, 'browsermonitor' or 'puppeteer-monitor', occurs in a
  string: letters are compared without regard to case, as Windows compares the paths the
  marker is part of and as \<open>findProjectChrome\<close> reads it (\<^verbatim>\<open>toLowerCase\<close> before
  \<^verbatim>\<open>includes\<close>).
\<close>

definition containsMarker :: "string \<Rightarrow> bool" where
  "containsMarker s =
     (str_includes (toLowerCase s) ''browsermonitor'' \<or>
      str_includes (toLowerCase s) ''puppeteer-monitor'')"

text \<open>
  A row of \<^verbatim>\<open>Get-WmiObject Win32_Process | Select-Object ProcessId, CommandLine\<close>.
  \<^verbatim>\<open>CommandLine\<close> is \<^verbatim>\<open>$null\<close> (\<open>None\<close>) for a process whose command line
  cannot be read.
\<close>

record win32_process =
  ProcessId :: nat
  CommandLine :: "string option"

text \<open>
  \<^verbatim>\<open>$chrome.CommandLine -match 'browsermonitor|puppeteer-monitor'\<close>. PowerShell's
  \<^verbatim>\<open>-match\<close> searches the string for the pattern without regard to letter case
  (\<^verbatim>\<open>-cmatch\<close> is the case-sensitive operator); \<^verbatim>\<open>$null -match ...\<close> is false.
\<close>

definition ps_match_marker :: "string option \<Rightarrow> bool" where
  "ps_match_marker commandLine =
     (case commandLine of
        None \<Rightarrow> False
      | Some s \<Rightarrow> str_includes (toLowerCase s) ''browsermonitor'' \<or>
                  str_includes (toLowerCase s) ''puppeteer-monitor'')"

text \<open>
  The PowerShell script of \<^verbatim>\<open>killPuppeteerMonitorChromes(true)\<close>:
  \<^verbatim>\<open>
  $killed = 0;
  foreach ($chrome in $chromes) {
    if ($chrome.CommandLine -match 'browsermonitor|puppeteer-monitor') {
      Stop-Process -Id $chrome.ProcessId -Force -ErrorAction SilentlyContinue; $killed++; break } };
  Write-Output $killed
  \<close>
  The result is the list of process ids handed to \<^verbatim>\<open>Stop-Process\<close> and \<^verbatim>\<open>$killed\<close>.
\<close>

fun psScript :: "win32_process list \<Rightarrow> nat list \<times> nat" where
  "psScript [] = ([], 0)"
| "psScript (chrome # chromes) =
     (if ps_match_marker (CommandLine chrome) then ([ProcessId chrome], 1)
      else psScript chromes)"

text \<open>
  The wmic branch collects the process ids of the marked rows:
  \<^verbatim>\<open>
  for (const line of lines) {
    if (line.includes('CommandLine') && line.includes('ProcessId')) continue;
    if (line.includes('browsermonitor') || line.includes('puppeteer-monitor')) {
      const pidMatch = line.match(/(\d+)\s*$/);
      if (pidMatch) { puppeteerMonitorPids.push(pidMatch[1]); }
    }
  }
  \<close>
\<close>

fun puppeteerMonitorPids :: "string list \<Rightarrow> string list" where
  "puppeteerMonitorPids [] = []"
| "puppeteerMonitorPids (line # lines) =
     (if str_includes line ''CommandLine'' \<and> str_includes line ''ProcessId''
      then puppeteerMonitorPids lines
      else if str_includes line ''browsermonitor'' \<or> str_includes line ''puppeteer-monitor''
      then (case pidMatch line of
              Some pid \<Rightarrow> pid # puppeteerMonitorPids lines
            | None \<Rightarrow> puppeteerMonitorPids lines)
      else puppeteerMonitorPids lines)"

text \<open>
  What the Windows side answers to one call: the Chrome processes PowerShell enumerates
  (\<open>None\<close> when \<^verbatim>\<open>execFileSync\<close> throws), the text \<^verbatim>\<open>wmic.exe\<close> prints
  (\<open>None\<close> when \<^verbatim>\<open>execSync\<close> throws), and whether \<^verbatim>\<open>taskkill.exe\<close> throws.
\<close>

record windows_env =
  ps_chromes :: "win32_process list option"
  wmicOutput :: "string option"
  taskkill_throws :: bool

text \<open>
  The effect of one call: the process ids given to \<^verbatim>\<open>Stop-Process\<close>, the process ids
  given to \<^verbatim>\<open>taskkill.exe /PID ... /T /F\<close> (as the text of the command has them), and
  the number returned.
\<close>

record kill_result =
  stopped :: "nat list"
  taskkilled :: "string list"
  returned :: nat

text \<open>
  \<^verbatim>\<open>
  export function killPuppeteerMonitorChromes(usePowerShell = false) {
    try {
      if (usePowerShell) {
        try { const result = execFileSync('powershell.exe', [..., psScript], ...);
              const killed = parseInt(result.trim(), 10) || 0; ...; return killed;
        } catch (e) { ...; return 0; }
      }
      const wmicOutput = execSync('wmic.exe process where "name=\'chrome.exe\'" get processid,commandline ...');
      const lines = wmicOutput.split('\n').filter(line => line.trim());
      ... puppeteerMonitorPids ...
      if (puppeteerMonitorPids.length === 0) { return 0; }
      const mainPid = puppeteerMonitorPids[0];
      try { execSync(`taskkill.exe /PID ${mainPid} /T /F 2>/dev/null`, ...); ...;
            execSync('sleep 1', ...); return 1;
      } catch (e) { ...; return 0; }
    } catch (e) { ...; return 0; }
  }
  \<close>
\<close>

definition killPuppeteerMonitorChromes :: "bool \<Rightarrow> windows_env \<Rightarrow> kill_result" where
  "killPuppeteerMonitorChromes usePowerShell env =
     (if usePowerShell then
        (case ps_chromes env of
           None \<Rightarrow> \<lparr>stopped = [], taskkilled = [], returned = 0\<rparr>
         | Some chromes \<Rightarrow>
             \<lparr>stopped = fst (psScript chromes), taskkilled = [], returned = snd (psScript chromes)\<rparr>)
      else
        (case wmicOutput env of
           None \<Rightarrow> \<lparr>stopped = [], taskkilled = [], returned = 0\<rparr>
         | Some out \<Rightarrow>
             (let lines = filter (\<lambda>line. trim line \<noteq> []) (split_newline out) in
              case puppeteerMonitorPids lines of
                [] \<Rightarrow> \<lparr>stopped = [], taskkilled = [], returned = 0\<rparr>
              | mainPid # _ \<Rightarrow>
                  \<lparr>stopped = [], taskkilled = [mainPid],
                   returned = (if taskkill_throws env then 0 else 1)\<rparr>)))"

section \<open>Pages of the connected browser\<close>

text \<open>
  A puppeteer page handle, as far as the monitor looks at it: its identity and what
  \<^verbatim>\<open>page.url()\<close> returns.
\<close>

record page =
  pageId :: nat
  url :: string

subsection \<open>The page list at connection time (runJoinMode)\<close>

text \<open>
  \<^verbatim>\<open>
  const isUserPage = (page) => {
    const url = page.url();
    if (url.startsWith('chrome://')) return false;
    if (url.startsWith('chrome-extension://')) return false;
    if (url.startsWith('devtools://')) return false;
    if (url === 'about:blank') return false;
    if (url.includes('react-devtools') || url.includes('redux-devtools')) return false;
    if (url.includes('__react_devtools__')) return false;
    if (/^moz-extension:\/\//.test(url)) return false;
    if (/^extension:\/\//.test(url)) return false;
    return true;
  };
  const userPages = allPages.filter(isUserPage);
  const pages = userPages.length > 0 ? userPages : allPages;
  \<close>
\<close>

definition isUserPage :: "page \<Rightarrow> bool" where
  "isUserPage pg =
     (if startsWith (url pg) ''chrome://'' then False
      else if startsWith (url pg) ''chrome-extension://'' then False
      else if startsWith (url pg) ''devtools://'' then False
      else if url pg = ''about:blank'' then False
      else if str_includes (url pg) ''react-devtools'' \<or> str_includes (url pg) ''redux-devtools''
      then False
      else if str_includes (url pg) ''__react_devtools__'' then False
      else if startsWith (url pg) ''moz-extension://'' then False
      else if startsWith (url pg) ''extension://'' then False
      else True)"

definition connectPages :: "page list \<Rightarrow> page list" where
  "connectPages allPages =
     (let userPages = filter isUserPage allPages
      in if length userPages > 0 then userPages else allPages)"

text \<open>
  The choice of the page to monitor. \<^verbatim>\<open>askUserToSelectPage\<close> (tab-selection.mjs) is
  the interactive prompt; it is a parameter, and \<open>None\<close> is its \<^verbatim>\<open>null\<close>. The result
  records the prompts that were issued and the page selected; no selected page stands for
  the branch \<^verbatim>\<open>log.error('No tabs found in browser'); cleanup(1); return;\<close>.
  \<^verbatim>\<open>
  if (pages.length === 0) { ...; cleanup(1); return; }
  let selectedPage;
  if (pages.length === 1) {
    selectedPage = pages[0];
  } else {
    selectedPage = await askUserToSelectPage(pages);
    if (!selectedPage) { log.dim('Using first tab.'); selectedPage = pages[0]; }
  }
  \<close>
\<close>

record page_selection =
  prompts :: "page list list"
  selectedPage :: "page option"

definition selectPage :: "(page list \<Rightarrow> page option) \<Rightarrow> page list \<Rightarrow> page_selection" where
  "selectPage askUserToSelectPage pages =
     (case pages of
        [] \<Rightarrow> \<lparr>prompts = [], selectedPage = None\<rparr>
      | [only] \<Rightarrow> \<lparr>prompts = [], selectedPage = Some only\<rparr>
      | first_page # _ # _ \<Rightarrow>
          (case askUserToSelectPage pages of
             Some picked \<Rightarrow> \<lparr>prompts = [pages], selectedPage = Some picked\<rparr>
           | None \<Rightarrow> \<lparr>prompts = [pages], selectedPage = Some first_page\<rparr>))"

subsection \<open>The page list of switchTabs and of the HTTP tab listing\<close>

text \<open>
  \<^verbatim>\<open>switchTabs\<close>, \<^verbatim>\<open>sharedHttpState.getAllTabs\<close> and
  \<^verbatim>\<open>sharedHttpState.switchToTab\<close>, in join mode and in open mode alike, compute
  \<^verbatim>\<open>
  const isUserPage = (pg) => {
    const u = pg.url();
    return !u.startsWith('chrome://') && !u.startsWith('devtools://')
        && !u.startsWith('chrome-extension://');
  };
  let pages = allPages.filter(isUserPage);
  const nonBlank = pages.filter(pg => pg.url() !== 'about:blank');
  if (nonBlank.length > 0) pages = nonBlank;
  \<close>
\<close>

definition isUserPage_tabs :: "page \<Rightarrow> bool" where
  "isUserPage_tabs pg =
     (\<not> startsWith (url pg) ''chrome://'' \<and> \<not> startsWith (url pg) ''devtools://'' \<and>
      \<not> startsWith (url pg) ''chrome-extension://'')"

definition tabPages :: "page list \<Rightarrow> page list" where
  "tabPages allPages =
     (let pages = filter isUserPage_tabs allPages;
          nonBlank = filter (\<lambda>pg. url pg \<noteq> ''about:blank'') pages
      in if length nonBlank > 0 then nonBlank else pages)"

text \<open>
  \<^verbatim>\<open>getAllTabs\<close>: \<^verbatim>\<open>if (!browser) return [];\<close> ... \<^verbatim>\<open>return pages.map((pg, i) =>
  ({ index: i + 1, url: pg.url() }));\<close>. The browser is given by the pages it reports,
  \<open>None\<close> when there is no browser yet.
\<close>

definition getAllTabs :: "page list option \<Rightarrow> (nat \<times> string) list" where
  "getAllTabs browser =
     (case browser of
        None \<Rightarrow> []
      | Some allPages \<Rightarrow> map (\<lambda>(i, pg). (i + 1, url pg)) (enumerate 0 (tabPages allPages)))"

text \<open>
  \<^verbatim>\<open>switchTabs\<close>: with no browser, no page or a single page it returns at once; with
  more it prompts, and a cancelled prompt leaves the monitored page as it is.
\<close>

datatype switch_result =
  BrowserNotConnected | NoUserTabs | OnlyOneTab | SwitchCancelled | NowMonitoring page

definition switchTabs :: "(page list \<Rightarrow> page option) \<Rightarrow> page list option \<Rightarrow> switch_result" where
  "switchTabs askUserToSelectPage browser =
     (case browser of
        None \<Rightarrow> BrowserNotConnected
      | Some allPages \<Rightarrow>
          (case tabPages allPages of
             [] \<Rightarrow> NoUserTabs
           | [_] \<Rightarrow> OnlyOneTab
           | pages \<Rightarrow>
               (case askUserToSelectPage pages of
                  None \<Rightarrow> SwitchCancelled
                | Some picked \<Rightarrow> NowMonitoring picked)))"

section \<open>Effects on the outside world\<close>

text \<open>
  The monitor acts on Windows, on the browser and on its own process through calls whose
  results it mostly ignores. A run is described by the list of these calls, in the order
  in which they are made; console output is left out.
\<close>

datatype proxyType = V4toV4 | V4toV6

datatype effect =
    Sleep nat \<comment> \<open>\<^verbatim>\<open>powershell.exe Start-Sleep -Milliseconds n\<close>\<close>
  | Netstat \<comment> \<open>\<^verbatim>\<open>netstat.exe -ano\<close>\<close>
  | StartProcess nat \<comment> \<open>\<^verbatim>\<open>Start-Process\<close> of Chrome with \<^verbatim>\<open>--remote-debugging-port\<close>\<close>
  | PortProxyDelete proxyType nat \<comment> \<open>\<^verbatim>\<open>netsh interface portproxy delete\<close> for a listen port\<close>
  | PortProxyAdd proxyType nat string \<comment> \<open>\<^verbatim>\<open>netsh interface portproxy add\<close>: type, port, connect address\<close>
  | Delay nat \<comment> \<open>\<^verbatim>\<open>await new Promise(r => setTimeout(r, n))\<close>\<close>
  | FetchVersion \<comment> \<open>\<^verbatim>\<open>fetch(browserURL + '/json/version')\<close>\<close>
  | PuppeteerConnect \<comment> \<open>\<^verbatim>\<open>puppeteer.connect({ browserURL, ... })\<close>\<close>
  | RunWslDiagnostics nat \<comment> \<open>\<^verbatim>\<open>runWslDiagnostics(port, connectHost)\<close>\<close>
  | AskYesNo \<comment> \<open>\<^verbatim>\<open>askYesNo('Do you want me to fix this automatically? ...')\<close>\<close>
  | KillManagedChromes bool \<comment> \<open>\<^verbatim>\<open>killPuppeteerMonitorChromes(usePowerShell)\<close>\<close>
  | CloseHttpServer \<comment> \<open>\<^verbatim>\<open>httpServer.close(...)\<close>\<close>
  | BrowserClose \<comment> \<open>\<^verbatim>\<open>browser.close()\<close>\<close>
  | BrowserDisconnect \<comment> \<open>\<^verbatim>\<open>browser.disconnect()\<close>\<close>
  | UnlinkPidFile \<comment> \<open>\<^verbatim>\<open>fs.unlinkSync(PID_FILE)\<close>\<close>
  | ProcessExit nat \<comment> \<open>\<^verbatim>\<open>process.exit(code)\<close>\<close>

section \<open>Port proxy set-up after launching Chrome on Windows\<close>

text \<open>
  \<^verbatim>\<open>String(port)\<close> for a port number: its decimal digits. (The source's variable
  \<^verbatim>\<open>port\<close> is written \<open>debugPort\<close> below, \<open>port\<close> being the field of an instance.)
\<close>

definition digit_char :: "nat \<Rightarrow> char" where
  "digit_char d = ''0123456789'' ! d"

fun decimal :: "nat \<Rightarrow> string" where
  "decimal n = (if n < 10 then [digit_char n] else decimal (n div 10) @ [digit_char (n mod 10)])"

declare decimal.simps [simp del]

text \<open>
  One look at \<^verbatim>\<open>netstat.exe -ano\<close>:
  \<^verbatim>\<open>
  const lines = netstatOutput.split('\n').filter(l => l.includes(':' + port) && l.includes('LISTEN'));
  for (const line of lines) {
    if (line.includes('127.0.0.1:' + port)) { chromeBindAddress = '127.0.0.1'; break; }
    else if (line.includes('[::1]:' + port)) { chromeBindAddress = '::1'; break; }
  }
  \<close>
\<close>

definition listeningLines :: "nat \<Rightarrow> string \<Rightarrow> string list" where
  "listeningLines debugPort netstatOutput =
     filter (\<lambda>l. str_includes l ('':'' @ decimal debugPort) \<and> str_includes l ''LISTEN'')
       (split_newline netstatOutput)"

fun detectBindAddress :: "nat \<Rightarrow> string list \<Rightarrow> string option" where
  "detectBindAddress debugPort [] = None"
| "detectBindAddress debugPort (line # lines) =
     (if str_includes line (''127.0.0.1:'' @ decimal debugPort) then Some ''127.0.0.1''
      else if str_includes line (''[::1]:'' @ decimal debugPort) then Some ''::1''
      else detectBindAddress debugPort lines)"

text \<open>
  The \<open>i\<close>-th call of netstat answers \<open>netstat i\<close>, \<open>None\<close> when \<^verbatim>\<open>execSync\<close> throws
  (the \<^verbatim>\<open>catch\<close> ignores it and the loop goes on).
\<close>

definition detectAt :: "(nat \<Rightarrow> string option) \<Rightarrow> nat \<Rightarrow> nat \<Rightarrow> string option" where
  "detectAt netstat debugPort i =
     (case netstat i of
        None \<Rightarrow> None
      | Some netstatOutput \<Rightarrow> detectBindAddress debugPort (listeningLines debugPort netstatOutput))"

text \<open>
  The polling loop, the same in \<^verbatim>\<open>startChromeOnWindows\<close> and in \<^verbatim>\<open>runOpenMode\<close>:
  \<^verbatim>\<open>
  let chromeBindAddress = null;
  for (let i = 0; i < 10; i++) {
    try { execSync('powershell.exe -NoProfile -Command "Start-Sleep -Milliseconds 500"', ...); } catch {}
    try {
      const netstatOutput = execSync(`netstat.exe -ano`, ...);
      ... the look above ...
      if (chromeBindAddress) break;
    } catch {}
  }
  \<close>
  The result is the detected address and the calls made from iteration \<open>i\<close> on.
\<close>

function pollBindAddress :: "(nat \<Rightarrow> string option) \<Rightarrow> nat \<Rightarrow> nat \<Rightarrow> string option \<times> effect list" where
  "pollBindAddress netstat debugPort i =
     (if i < 10 then
        (case detectAt netstat debugPort i of
           Some chromeBindAddress \<Rightarrow> (Some chromeBindAddress, [Sleep 500, Netstat])
         | None \<Rightarrow>
             (case pollBindAddress netstat debugPort (i + 1) of
                (chromeBindAddress, calls) \<Rightarrow> (chromeBindAddress, Sleep 500 # Netstat # calls)))
      else (None, []))"
  by pat_completeness auto
termination
  by (relation "measure (\<lambda>(netstat, debugPort, i). 10 - i)") auto

declare pollBindAddress.simps [simp del]

text \<open>
  \<^verbatim>\<open>startChromeOnWindows(chromePath, port, profileDir)\<close>: the old v4tov4 rule is deleted,
  Chrome is started (when that throws the function returns \<^verbatim>\<open>false\<close>), the bind address
  is polled and defaults to 127.0.0.1, both kinds of rule are deleted, and the rule that
  fits the address is added.
  \<^verbatim>\<open>
  if (!chromeBindAddress) { chromeBindAddress = '127.0.0.1'; ... }
  const isIPv6 = chromeBindAddress === '::1';
  const proxyType = isIPv6 ? 'v4tov6' : 'v4tov4';
  const connectAddress = isIPv6 ? '::1' : '127.0.0.1';
  try { execSync(`... netsh interface portproxy delete v4tov4 listenport=${port} ...;
                      netsh interface portproxy delete v4tov6 listenport=${port} ...`) } catch {}
  try { execSync(`... netsh interface portproxy add ${proxyType} listenport=${port}
                      listenaddress=0.0.0.0 connectport=${port} connectaddress=${connectAddress}`) }
  catch (e) { ... }
  return true;
  \<close>
\<close>

record launch_env =
  startProcess_throws :: bool
  netstat_answers :: "nat \<Rightarrow> string option"

definition startChromeOnWindows :: "launch_env \<Rightarrow> nat \<Rightarrow> bool \<times> effect list" where
  "startChromeOnWindows env debugPort =
     (if startProcess_throws env
      then (False, [PortProxyDelete V4toV4 debugPort, StartProcess debugPort])
      else
        (case pollBindAddress (netstat_answers env) debugPort 0 of
           (detected, polls) \<Rightarrow>
             (let chromeBindAddress = (case detected of Some a \<Rightarrow> a | None \<Rightarrow> ''127.0.0.1'');
                  isIPv6 = (chromeBindAddress = ''::1'');
                  proxyType = (if isIPv6 then V4toV6 else V4toV4);
                  connectAddress = (if isIPv6 then ''::1'' else ''127.0.0.1'')
              in (True,
                  [PortProxyDelete V4toV4 debugPort, StartProcess debugPort] @ polls @
                  [PortProxyDelete V4toV4 debugPort, PortProxyDelete V4toV6 debugPort,
                   PortProxyAdd proxyType debugPort connectAddress]))))"

text \<open>
  The same steps inline in \<^verbatim>\<open>runOpenMode\<close> (WSL branch); there a failing
  \<^verbatim>\<open>Start-Process\<close> ends the process with exit code 1, and the rule is added with
  \<^verbatim>\<open>connectaddress=${chromeBindAddr}\<close>.
  \<^verbatim>\<open>
  if (!chromeBindAddr) chromeBindAddr = '127.0.0.1';
  const proxyType = chromeBindAddr === '::1' ? 'v4tov6' : 'v4tov4';
  \<close>
\<close>

definition openModeLaunch :: "launch_env \<Rightarrow> nat \<Rightarrow> effect list" where
  "openModeLaunch env windowsDebugPort =
     (if startProcess_throws env
      then [StartProcess windowsDebugPort, ProcessExit 1]
      else
        (case pollBindAddress (netstat_answers env) windowsDebugPort 0 of
           (detected, polls) \<Rightarrow>
             (let chromeBindAddr = (case detected of Some a \<Rightarrow> a | None \<Rightarrow> ''127.0.0.1'');
                  proxyType = (if chromeBindAddr = ''::1'' then V4toV6 else V4toV4)
              in [StartProcess windowsDebugPort] @ polls @
                 [PortProxyDelete V4toV4 windowsDebugPort, PortProxyDelete V4toV6 windowsDebugPort,
                  PortProxyAdd proxyType windowsDebugPort chromeBindAddr])))"

section \<open>Connecting to Chrome, and what follows a failed connection\<close>

subsection \<open>The retry loop of open mode (WSL branch)\<close>

text \<open>
  What one attempt meets: the probe of \<^verbatim>\<open>/json/version\<close> throws (with a message), or
  the probe returns and \<^verbatim>\<open>puppeteer.connect\<close> throws, or both succeed.
\<close>

datatype attempt_outcome = ProbeThrows string | ConnectThrows string | Connected

definition MAX_RETRIES :: nat where
  "MAX_RETRIES = 5"

definition RETRY_DELAY :: nat where
  "RETRY_DELAY = 1500"

text \<open>
  \<^verbatim>\<open>
  const MAX_RETRIES = 5;
  const RETRY_DELAY = 1500;
  let lastError = null;
  for (let attempt = 1; attempt <= MAX_RETRIES; attempt++) {
    try {
      await new Promise(r => setTimeout(r, RETRY_DELAY));
      try {
        const response = await fetch(`${browserURL}/json/version`, { signal: AbortSignal.timeout(3000) });
        if (response.ok) { const info = await response.json(); ... }
      } catch (fetchErr) {
        throw new Error(`Cannot reach Chrome debug endpoint: ${fetchErr.message}`);
      }
      browser = await puppeteer.connect({ browserURL, defaultViewport: null });
      lastError = null;
      break;
    } catch (e) { lastError = e; }
  }
  \<close>
  The result is the final \<^verbatim>\<open>lastError\<close> (its message) and the calls made from attempt
  \<open>attempt\<close> on.
\<close>

function connectWithRetry :: "(nat \<Rightarrow> attempt_outcome) \<Rightarrow> nat \<Rightarrow> string option \<Rightarrow> string option \<times> effect list" where
  "connectWithRetry outcome attempt lastError =
     (if attempt \<le> MAX_RETRIES then
        (case outcome attempt of
           ProbeThrows msg \<Rightarrow>
             (case connectWithRetry outcome (attempt + 1)
                     (Some (''Cannot reach Chrome debug endpoint: '' @ msg)) of
                (err, calls) \<Rightarrow> (err, Delay RETRY_DELAY # FetchVersion # calls))
         | ConnectThrows msg \<Rightarrow>
             (case connectWithRetry outcome (attempt + 1) (Some msg) of
                (err, calls) \<Rightarrow> (err, Delay RETRY_DELAY # FetchVersion # PuppeteerConnect # calls))
         | Connected \<Rightarrow> (None, [Delay RETRY_DELAY, FetchVersion, PuppeteerConnect]))
      else (lastError, []))"
  by pat_completeness auto
termination
  by (relation "measure (\<lambda>(outcome, attempt, lastError). MAX_RETRIES + 1 - attempt)") auto

declare connectWithRetry.simps [simp del]

subsection \<open>Diagnostics and the automatic fix\<close>

text \<open>
  \<^verbatim>\<open>runWslDiagnostics\<close> and \<^verbatim>\<open>askYesNo\<close> are defined in other modules: the
  diagnostics result (the two fields the monitor reads) and the operator's answer are
  parameters. \<^verbatim>\<open>actualPort\<close> is a number or \<^verbatim>\<open>null\<close>.
\<close>

record diagResult =
  hasPortProxyConflict :: bool
  actualPort :: "nat option"

text \<open>\<^verbatim>\<open>const fixPort = diagResult.actualPort || port;\<close> (0 is falsy as \<^verbatim>\<open>null\<close> is).\<close>

definition fixPort :: "diagResult \<Rightarrow> nat \<Rightarrow> nat" where
  "fixPort diag debugPort =
     (case actualPort diag of
        None \<Rightarrow> debugPort
      | Some p \<Rightarrow> if p = 0 then debugPort else p)"

text \<open>
  Open mode, after the loop:
  \<^verbatim>\<open>
  if (lastError) {
    log.error(...);
    const diagResult = await runWslDiagnostics(windowsDebugPort, connectHost);
    if (diagResult.hasPortProxyConflict) {
      const shouldFix = await askYesNo('Do you want me to fix this automatically? ...');
      if (shouldFix) {
        const fixPort = diagResult.actualPort || windowsDebugPort;
        try { execSync(`netsh.exe interface portproxy delete v4tov4 listenport=${fixPort} ...`) } catch (e) { ... }
        try { killPuppeteerMonitorChromes(true); ... } catch (e) { ... }
        process.exit(0);
      }
    }
    ...
    process.exit(1);
  }
  \<close>
\<close>

definition openModeConnectFailure :: "diagResult \<Rightarrow> bool \<Rightarrow> nat \<Rightarrow> effect list" where
  "openModeConnectFailure diag shouldFix windowsDebugPort =
     RunWslDiagnostics windowsDebugPort #
     (if hasPortProxyConflict diag then
        AskYesNo #
        (if shouldFix then
           [PortProxyDelete V4toV4 (fixPort diag windowsDebugPort), KillManagedChromes True,
            ProcessExit 0]
         else [ProcessExit 1])
      else [ProcessExit 1])"

definition openModeConnect :: "(nat \<Rightarrow> attempt_outcome) \<Rightarrow> diagResult \<Rightarrow> bool \<Rightarrow> nat \<Rightarrow> effect list" where
  "openModeConnect outcome diag shouldFix windowsDebugPort =
     (case connectWithRetry outcome 1 None of
        (None, calls) \<Rightarrow> calls
      | (Some err, calls) \<Rightarrow> calls @ openModeConnectFailure diag shouldFix windowsDebugPort)"

text \<open>
  Join mode connects once; the \<^verbatim>\<open>catch\<close> of its \<^verbatim>\<open>try\<close> block:
  \<^verbatim>\<open>
  } catch (e) {
    if (e.message.includes('ECONNREFUSED') || e.message.includes('fetch failed') ||
        e.message.includes('ETIMEDOUT') || e.message.includes('timeout')) {
      ...
      if (isWSL) {
        const diagResult = await runWslDiagnostics(port, connectHost);
        if (diagResult.hasPortProxyConflict) {
          const shouldFix = await askYesNo('Do you want me to fix this automatically? ...');
          if (shouldFix) {
            const fixPort = diagResult.actualPort || port;
            try { execSync(`netsh.exe interface portproxy delete v4tov4 listenport=${fixPort} ...`) } catch (err) { ... }
            try { killPuppeteerMonitorChromes(true); ... } catch (err) { ... }
            process.exit(0);
          }
        }
      } else { ... }
    } else { log.error(e.message); }
    process.exit(1);
  }
  \<close>
\<close>

definition isConnectivityError :: "string \<Rightarrow> bool" where
  "isConnectivityError message =
     (str_includes message ''ECONNREFUSED'' \<or> str_includes message ''fetch failed'' \<or>
      str_includes message ''ETIMEDOUT'' \<or> str_includes message ''timeout'')"

definition joinModeConnectFailure :: "string \<Rightarrow> bool \<Rightarrow> diagResult \<Rightarrow> bool \<Rightarrow> nat \<Rightarrow> effect list" where
  "joinModeConnectFailure message isWSL diag shouldFix debugPort =
     (if isConnectivityError message then
        (if isWSL then
           RunWslDiagnostics debugPort #
           (if hasPortProxyConflict diag then
              AskYesNo #
              (if shouldFix then
                 [PortProxyDelete V4toV4 (fixPort diag debugPort), KillManagedChromes True,
                  ProcessExit 0]
               else [ProcessExit 1])
            else [ProcessExit 1])
         else [ProcessExit 1])
      else [ProcessExit 1])"

text \<open>The calls that make up the automatic fix: removing a forwarding rule, killing Chrome.\<close>

fun isFixCall :: "effect \<Rightarrow> bool" where
  "isFixCall (PortProxyDelete ty p) = True"
| "isFixCall (KillManagedChromes usePowerShell) = True"
| "isFixCall other = False"

text \<open>
  The calls one attempt of the retry loop makes, as the specification words it: the delay,
  the probe of the metadata endpoint, and the control-protocol connection unless the
  probe failed.
\<close>

definition attempt_calls :: "attempt_outcome \<Rightarrow> effect list" where
  "attempt_calls out =
     (case out of
        ProbeThrows msg \<Rightarrow> [Delay 1500, FetchVersion]
      | ConnectThrows msg \<Rightarrow> [Delay 1500, FetchVersion, PuppeteerConnect]
      | Connected \<Rightarrow> [Delay 1500, FetchVersion, PuppeteerConnect])"

text \<open>The error an attempt leaves in \<^verbatim>\<open>lastError\<close>.\<close>

definition attempt_error :: "attempt_outcome \<Rightarrow> string option" where
  "attempt_error out =
     (case out of
        ProbeThrows msg \<Rightarrow> Some (''Cannot reach Chrome debug endpoint: '' @ msg)
      | ConnectThrows msg \<Rightarrow> Some msg
      | Connected \<Rightarrow> None)"

section \<open>Shutdown\<close>

text \<open>
  The variables \<^verbatim>\<open>cleanup\<close> reads: the one-shot flag, whether there is an HTTP server
  and a browser (\<open>False\<close> for \<^verbatim>\<open>null\<close>), and open mode's \<^verbatim>\<open>launchedOnWindows\<close>.
\<close>

record session =
  cleanupDone :: bool
  httpServer :: bool
  browser :: bool
  launchedOnWindows :: bool



text \<open>
  What calls \<^verbatim>\<open>cleanup\<close>, and with which arguments:
  \<^verbatim>\<open>
  process.on('SIGINT', () => cleanup(0, false));
  process.on('SIGTERM', () => cleanup(0, false));
  process.on('uncaughtException', (e) => { ...; cleanup(1); });
  process.on('unhandledRejection', (e) => { ...; cleanup(1); });   // open mode only
  if (hardTimeout > 0) { setTimeout(() => { ...; cleanup(1); }, hardTimeout); }
  if (key.ctrl && key.name === 'c') { cleanup(0); return; }
  ... else if (key.name === 'q') { cleanup(0, false); }
      else if (key.name === 'k') { ...; cleanup(0, true); }
  \<close>
\<close>

datatype trigger =
  SIGINT | SIGTERM | UncaughtException | UnhandledRejection | HardTimeout | KeyCtrlC | KeyQ | KeyK




section \<open>Choosing a Chrome instance in interactive mode\<close>

text \<open>
  \<^verbatim>\<open>parseInt(s, 10)\<close>: leading white space is skipped, one sign is read, and the longest
  run of decimal digits that follows is the number; without a digit the result is
  \<^verbatim>\<open>NaN\<close>, here \<open>None\<close>.
\<close>

definition digit_value :: "char \<Rightarrow> nat" where
  "digit_value c =
     (case map_of (zip ''0123456789'' [0, 1, 2, 3, 4, 5, 6, 7, 8, 9]) c of
        Some d \<Rightarrow> d
      | None \<Rightarrow> 0)"

definition decimal_value :: "string \<Rightarrow> nat" where
  "decimal_value digits = foldl (\<lambda>n c. 10 * n + digit_value c) 0 digits"

definition parseInt :: "string \<Rightarrow> int option" where
  "parseInt s =
     (let S = dropWhile isSpace s;
          negative = (S \<noteq> [] \<and> hd S = CHR ''-'');
          unsigned = (if S \<noteq> [] \<and> (hd S = CHR ''-'' \<or> hd S = CHR ''+'') then tl S else S);
          Z = takeWhile isDigit unsigned
      in if Z = [] then None
         else Some (if negative then - int (decimal_value Z) else int (decimal_value Z)))"

text \<open>
  An entry \<^verbatim>\<open>{ port, label }\<close> of the list (its \<^verbatim>\<open>port\<close> is written \<open>item_port\<close>),
  and the \<^verbatim>\<open>key\<close> object of a keypress event with its \<^verbatim>\<open>name\<close>, \<open>None\<close> when
  \<^verbatim>\<open>undefined\<close>.
\<close>

record instance_item =
  item_port :: nat
  label :: string

record key_info =
  name :: "string option"

text \<open>A promise is resolved with a value, or never resolved; or its handler threw.\<close>

datatype 'a promise = Resolved 'a | Pending | Threw

text \<open>
  The handler of the first keypress after the prompt (\<^verbatim>\<open>process.stdin.once\<close>); the
  event carries \<^verbatim>\<open>str\<close> and \<^verbatim>\<open>key\<close>, each possibly \<^verbatim>\<open>undefined\<close>.
  \<^verbatim>\<open>
  const handleKey = (str, key) => {
    if (!key) return;
    process.stdin.removeListener('keypress', handleKey);
    const char = (key.name || str).toLowerCase();
    process.stdout.write(char + '\n');
    if (char === 'q') {
      resolve(null);
    } else {
      const num = parseInt(char, 10);
      if (num >= 1 && num <= items.length) { resolve(items[num - 1].port); }
      else { log.warn('Invalid selection'); resolve(null); }
    }
  };
  \<close>
  \<^verbatim>\<open>key.name || str\<close> is \<^verbatim>\<open>str\<close> when the name is undefined or empty, and
  \<^verbatim>\<open>.toLowerCase()\<close> of \<^verbatim>\<open>undefined\<close> throws.
\<close>

definition handleKey :: "instance_item list \<Rightarrow> string option \<Rightarrow> key_info option \<Rightarrow> nat option promise" where
  "handleKey items str key =
     (case key of
        None \<Rightarrow> Pending
      | Some k \<Rightarrow>
          (case (case name k of
                   None \<Rightarrow> str
                 | Some n \<Rightarrow> if n = [] then str else Some n) of
             None \<Rightarrow> Threw
           | Some raw \<Rightarrow>
               (let char = toLowerCase raw in
                if char = ''q'' then Resolved None
                else
                  (case parseInt char of
                     None \<Rightarrow> Resolved None
                   | Some num \<Rightarrow>
                       if num \<ge> 1 \<and> num \<le> int (length items)
                       then Resolved (Some (item_port (items ! nat (num - 1))))
                       else Resolved None))))"

text \<open>
  \<^verbatim>\<open>
  export function askUserToSelectChromeInstance(items) {
    if (items.length === 0) return Promise.resolve(null);
    if (items.length === 1) { return Promise.resolve(items[0].port); }
    ... the list and the prompt are printed ...
    return new Promise((resolve) => { ...; process.stdin.once('keypress', handleKey); });
  }
  \<close>
  The result says whether the prompt was printed, and what becomes of the promise on the
  keypress event given.
\<close>

definition askUserToSelectChromeInstance :: "instance_item list \<Rightarrow> string option \<Rightarrow> key_info option \<Rightarrow> bool \<times> nat option promise" where
  "askUserToSelectChromeInstance items str key =
     (case items of
        [] \<Rightarrow> (False, Resolved None)
      | [only] \<Rightarrow> (False, Resolved (Some (item_port only)))
      | _ # _ # _ \<Rightarrow> (True, handleKey items str key))"

text \<open>The character the handler reads from a keypress event, when there is one.\<close>

definition keypress_char :: "string option \<Rightarrow> key_info option \<Rightarrow> string option" where
  "keypress_char str key =
     (case key of
        None \<Rightarrow> None
      | Some k \<Rightarrow>
          (case name k of
             None \<Rightarrow> map_option toLowerCase str
           | Some n \<Rightarrow> if n = [] then map_option toLowerCase str else Some (toLowerCase n)))"

section \<open>Facts about the string operations\<close>

lemma str_includes_iff: "str_includes s sub \<longleftrightarrow> (\<exists>pre post. s = pre @ sub @ post)"
proof (induction s)
  case Nil
  then show ?case by auto
next
  case (Cons c cs)
  show ?case
  proof
    assume "str_includes (c # cs) sub"
    then consider "prefix sub (c # cs)" | "str_includes cs sub" by auto
    then show "\<exists>pre post. c # cs = pre @ sub @ post"
    proof cases
      case 1
      then obtain post where "c # cs = sub @ post" by (auto simp: prefix_def)
      then have "c # cs = [] @ sub @ post" by simp
      then show ?thesis by blast
    next
      case 2
      with Cons.IH obtain pre post where "cs = pre @ sub @ post" by blast
      then have "c # cs = (c # pre) @ sub @ post" by simp
      then show ?thesis by blast
    qed
  next
    assume "\<exists>pre post. c # cs = pre @ sub @ post"
    then obtain pre post where e: "c # cs = pre @ sub @ post" by blast
    show "str_includes (c # cs) sub"
    proof (cases pre)
      case Nil
      with e have "prefix sub (c # cs)" by (simp add: prefix_def)
      then show ?thesis by simp
    next
      case (Cons a pre')
      with e have "cs = pre' @ sub @ post" by simp
      with Cons.IH have "str_includes cs sub" by blast
      then show ?thesis by simp
    qed
  qed
qed

section \<open>Properties of killPuppeteerMonitorChromes\<close>

lemma psScript_stopped:
  "pid \<in> set (fst (psScript chromes)) \<Longrightarrow>
   \<exists>p\<in>set chromes. ProcessId p = pid \<and> ps_match_marker (CommandLine p)"
  by (induction chromes) (auto split: if_splits)

lemma puppeteerMonitorPids_marked:
  "pid \<in> set (puppeteerMonitorPids lines) \<Longrightarrow>
   \<exists>line\<in>set lines.
      (str_includes line ''browsermonitor'' \<or> str_includes line ''puppeteer-monitor'') \<and>
      pidMatch line = Some pid"
  by (induction lines) (auto split: if_splits option.splits)

text \<open>
  An occurrence of a word in \<open>cmd @ rest\<close> lies within \<open>cmd\<close> when the last character of
  the word does not occur in \<open>rest\<close>.
\<close>

lemma str_includes_append_left:
  assumes "m \<noteq> []" and "last m \<notin> set rest" and "str_includes (cmd @ rest) m"
  shows "str_includes cmd m"
proof -
  from assms(3) obtain pre post where e: "cmd @ rest = (pre @ m) @ post"
    by (auto simp: str_includes_iff)
  from append_eq_append_conv2 [THEN iffD1, OF e] obtain us where
    "(cmd = (pre @ m) @ us \<and> us @ rest = post) \<or> (cmd @ us = pre @ m \<and> rest = us @ post)"
    by blast
  then show ?thesis
  proof
    assume "cmd = (pre @ m) @ us \<and> us @ rest = post"
    then have "cmd = pre @ m @ us" by simp
    then show ?thesis unfolding str_includes_iff by blast
  next
    assume a: "cmd @ us = pre @ m \<and> rest = us @ post"
    show ?thesis
    proof (cases "us = []")
      case True
      with a have "cmd = pre @ m @ []" by simp
      then show ?thesis unfolding str_includes_iff by blast
    next
      case False
      from a have "last (cmd @ us) = last (pre @ m)" by simp
      with False assms(1) have "last us = last m" by simp
      moreover from False have "last us \<in> set us" by simp
      ultimately have "last m \<in> set rest" using a by simp
      with assms(2) show ?thesis by simp
    qed
  qed
qed

lemma isSpace_not_isDigit: "isSpace c \<Longrightarrow> \<not> isDigit c"
  by (auto simp: isSpace_def isDigit_def)

lemma pidMatch_row:
  assumes "sep \<noteq> []" and "list_all isSpace sep" and "digits \<noteq> []" and "list_all isDigit digits"
    and "list_all isSpace ws"
  shows "pidMatch (cmd @ sep @ digits @ ws) = Some digits"
proof -
  have d: "isDigit (last digits)"
    using assms(3,4) by (simp add: list_all_iff)
  have s: "isSpace (last sep)"
    using assms(1,2) by (simp add: list_all_iff)
  have hd1: "hd (rev digits @ rev sep @ rev cmd) = last digits"
    using assms(3) by (simp add: hd_rev)
  have hd2: "hd (rev sep @ rev cmd) = last sep"
    using assms(1) by (simp add: hd_rev)
  have "dropWhile isSpace (rev (cmd @ sep @ digits @ ws)) =
        dropWhile isSpace (rev ws @ (rev digits @ rev sep @ rev cmd))"
    by simp
  also have "\<dots> = dropWhile isSpace (rev digits @ rev sep @ rev cmd)"
    using assms(5) by (intro dropWhile_append2) (simp add: list_all_iff)
  also have "\<dots> = rev digits @ rev sep @ rev cmd"
    using d hd1 isSpace_not_isDigit [of "last digits"]
    by (simp only: dropWhile_eq_self_iff) auto
  finally have dw: "dropWhile isSpace (rev (cmd @ sep @ digits @ ws)) =
        rev digits @ rev sep @ rev cmd" .
  have "takeWhile isDigit (rev digits @ (rev sep @ rev cmd)) =
        rev digits @ takeWhile isDigit (rev sep @ rev cmd)"
    using assms(4) by (intro takeWhile_append2) (simp add: list_all_iff)
  moreover have "takeWhile isDigit (rev sep @ rev cmd) = []"
    using s hd2 isSpace_not_isDigit [of "last sep"]
    by (simp only: takeWhile_eq_Nil_iff) auto
  ultimately have tw: "takeWhile isDigit (rev digits @ rev sep @ rev cmd) = rev digits"
    by simp
  show ?thesis
    unfolding pidMatch_def dw tw using assms(3) by (simp add: Let_def)
qed

lemma marked_row_marked_command:
  assumes "line = cmd @ sep @ digits @ ws" and "list_all isSpace sep" and "list_all isDigit digits"
    and "list_all isSpace ws"
    and "str_includes line ''browsermonitor'' \<or> str_includes line ''puppeteer-monitor''"
  shows "str_includes cmd ''browsermonitor'' \<or> str_includes cmd ''puppeteer-monitor''"
proof -
  have ns: "\<not> isSpace (CHR ''r'')" by (simp add: isSpace_def)
  have nd: "\<not> isDigit (CHR ''r'')" by (simp add: isDigit_def)
  have r: "CHR ''r'' \<notin> set (sep @ digits @ ws)"
  proof
    assume "CHR ''r'' \<in> set (sep @ digits @ ws)"
    then have "CHR ''r'' \<in> set sep \<or> CHR ''r'' \<in> set digits \<or> CHR ''r'' \<in> set ws" by simp
    with assms(2,3,4) have "isSpace (CHR ''r'') \<or> isDigit (CHR ''r'')"
      unfolding list_all_iff by blast
    with ns nd show False by blast
  qed
  have l1: "last ''browsermonitor'' = CHR ''r''" by simp
  have l2: "last ''puppeteer-monitor'' = CHR ''r''" by simp
  have n1: "''browsermonitor'' \<noteq> []" by simp
  have n2: "''puppeteer-monitor'' \<noteq> []" by simp
  have r1: "last ''browsermonitor'' \<notin> set (sep @ digits @ ws)" by (subst l1) (rule r)
  have r2: "last ''puppeteer-monitor'' \<notin> set (sep @ digits @ ws)" by (subst l2) (rule r)
  from assms(5) show ?thesis
  proof
    assume "str_includes line ''browsermonitor''"
    with assms(1) have "str_includes (cmd @ (sep @ digits @ ws)) ''browsermonitor''" by blast
    from str_includes_append_left [OF n1 r1 this] show ?thesis by (rule disjI1)
  next
    assume "str_includes line ''puppeteer-monitor''"
    with assms(1) have "str_includes (cmd @ (sep @ digits @ ws)) ''puppeteer-monitor''" by blast
    from str_includes_append_left [OF n2 r2 this] show ?thesis by (rule disjI2)
  qed
qed

lemma str_includes_toLowerCase:
  assumes "toLowerCase m = m" and "str_includes s m"
  shows "str_includes (toLowerCase s) m"
proof -
  from assms(2) obtain pre post where "s = pre @ m @ post"
    by (auto simp: str_includes_iff)
  then have "toLowerCase s = toLowerCase pre @ toLowerCase m @ toLowerCase post"
    by (simp add: toLowerCase_def)
  with assms(1) have "toLowerCase s = toLowerCase pre @ m @ toLowerCase post"
    by simp
  then show ?thesis unfolding str_includes_iff by blast
qed

lemma literal_marker_containsMarker:
  assumes "str_includes s ''browsermonitor'' \<or> str_includes s ''puppeteer-monitor''"
  shows "containsMarker s"
proof -
  have l1: "toLowerCase ''browsermonitor'' = ''browsermonitor''"
    by (simp add: toLowerCase_def toLowerCase_char_def)
  have l2: "toLowerCase ''puppeteer-monitor'' = ''puppeteer-monitor''"
    by (simp add: toLowerCase_def toLowerCase_char_def)
  from assms show ?thesis
    unfolding containsMarker_def
    using str_includes_toLowerCase [OF l1] str_includes_toLowerCase [OF l2] by blast
qed

text \<open>
  C1. Whatever the Windows side answers, \<open>killPuppeteerMonitorChromes\<close> selects for
  termination only a process whose command line contains the profile marker,
  'browsermonitor' or 'puppeteer-monitor' (letters compared without regard to case). In
  the PowerShell path every process id handed to \<^verbatim>\<open>Stop-Process\<close> is the id of an
  enumerated process with the marker in its command line. In the wmic path every process
  id handed to \<^verbatim>\<open>taskkill.exe\<close> is the trailing number of an output row that contains
  the marker, even literally; when that row is a command line followed by white space and
  the process id, as wmic prints a process, the command line itself contains the marker
  and the number is that process id. The PowerShell path never calls taskkill and the
  wmic path never calls Stop-Process; and when no enumerated command line, or no output
  row, contains the marker, nothing is terminated at all.
\<close>

theorem killPuppeteerMonitorChromes_only_marked:
  "(\<forall>pid. pid \<in> set (stopped (killPuppeteerMonitorChromes True env)) \<longrightarrow>
      (\<exists>chromes p cmd.
         ps_chromes env = Some chromes \<and> p \<in> set chromes \<and> ProcessId p = pid \<and>
         CommandLine p = Some cmd \<and> containsMarker cmd)) \<and>
   taskkilled (killPuppeteerMonitorChromes True env) = [] \<and>
   stopped (killPuppeteerMonitorChromes False env) = [] \<and>
   (\<forall>pid. pid \<in> set (taskkilled (killPuppeteerMonitorChromes False env)) \<longrightarrow>
      (\<exists>out line.
         wmicOutput env = Some out \<and> line \<in> set (split_newline out) \<and>
         containsMarker line \<and>
         (str_includes line ''browsermonitor'' \<or> str_includes line ''puppeteer-monitor'') \<and>
         pidMatch line = Some pid \<and>
         (\<forall>cmd sep digits ws.
            line = cmd @ sep @ digits @ ws \<and> sep \<noteq> [] \<and> list_all isSpace sep \<and>
            digits \<noteq> [] \<and> list_all isDigit digits \<and> list_all isSpace ws \<longrightarrow>
            pid = digits \<and> containsMarker cmd \<and>
            (str_includes cmd ''browsermonitor'' \<or> str_includes cmd ''puppeteer-monitor'')))) \<and>
   ((\<forall>chromes. ps_chromes env = Some chromes \<longrightarrow>
       (\<forall>p\<in>set chromes. \<forall>cmd. CommandLine p = Some cmd \<longrightarrow> \<not> containsMarker cmd)) \<longrightarrow>
      stopped (killPuppeteerMonitorChromes True env) = []) \<and>
   ((\<forall>out. wmicOutput env = Some out \<longrightarrow>
       (\<forall>line\<in>set (split_newline out). \<not> containsMarker line)) \<longrightarrow>
      taskkilled (killPuppeteerMonitorChromes False env) = [])"
proof -
  have ps: "\<exists>chromes p cmd.
         ps_chromes env = Some chromes \<and> p \<in> set chromes \<and> ProcessId p = pid \<and>
         CommandLine p = Some cmd \<and> containsMarker cmd"
    if a: "pid \<in> set (stopped (killPuppeteerMonitorChromes True env))" for pid
  proof -
    from a obtain chromes where c: "ps_chromes env = Some chromes"
      by (cases "ps_chromes env") (simp_all add: killPuppeteerMonitorChromes_def)
    with a have "pid \<in> set (fst (psScript chromes))"
      by (simp add: killPuppeteerMonitorChromes_def)
    from psScript_stopped [OF this] obtain p where
      p: "p \<in> set chromes" "ProcessId p = pid" "ps_match_marker (CommandLine p)"
      by blast
    from p(3) obtain cmd where "CommandLine p = Some cmd" "containsMarker cmd"
      by (cases "CommandLine p") (simp_all add: ps_match_marker_def containsMarker_def)
    with c p(1,2) show ?thesis by blast
  qed
  have wm: "\<exists>out line.
         wmicOutput env = Some out \<and> line \<in> set (split_newline out) \<and>
         containsMarker line \<and>
         (str_includes line ''browsermonitor'' \<or> str_includes line ''puppeteer-monitor'') \<and>
         pidMatch line = Some pid \<and>
         (\<forall>cmd sep digits ws.
            line = cmd @ sep @ digits @ ws \<and> sep \<noteq> [] \<and> list_all isSpace sep \<and>
            digits \<noteq> [] \<and> list_all isDigit digits \<and> list_all isSpace ws \<longrightarrow>
            pid = digits \<and> containsMarker cmd \<and>
            (str_includes cmd ''browsermonitor'' \<or> str_includes cmd ''puppeteer-monitor''))"
    if a: "pid \<in> set (taskkilled (killPuppeteerMonitorChromes False env))" for pid
  proof -
    from a obtain out where o: "wmicOutput env = Some out"
      by (cases "wmicOutput env") (simp_all add: killPuppeteerMonitorChromes_def)
    let ?lines = "filter (\<lambda>line. trim line \<noteq> []) (split_newline out)"
    from a o have "pid \<in> set (puppeteerMonitorPids ?lines)"
      by (cases "puppeteerMonitorPids ?lines")
         (simp_all add: killPuppeteerMonitorChromes_def Let_def)
    from puppeteerMonitorPids_marked [OF this] obtain line where
      l: "line \<in> set ?lines"
         "str_includes line ''browsermonitor'' \<or> str_includes line ''puppeteer-monitor''"
         "pidMatch line = Some pid"
      by blast
    have row: "\<forall>cmd sep digits ws.
            line = cmd @ sep @ digits @ ws \<and> sep \<noteq> [] \<and> list_all isSpace sep \<and>
            digits \<noteq> [] \<and> list_all isDigit digits \<and> list_all isSpace ws \<longrightarrow>
            pid = digits \<and> containsMarker cmd \<and>
            (str_includes cmd ''browsermonitor'' \<or> str_includes cmd ''puppeteer-monitor'')"
    proof (intro allI impI)
      fix cmd sep digits ws
      assume r: "line = cmd @ sep @ digits @ ws \<and> sep \<noteq> [] \<and> list_all isSpace sep \<and>
            digits \<noteq> [] \<and> list_all isDigit digits \<and> list_all isSpace ws"
      then have "pidMatch line = Some digits"
        using pidMatch_row [of sep digits ws cmd] by blast
      with l(3) have "pid = digits" by simp
      moreover have lit: "str_includes cmd ''browsermonitor'' \<or> str_includes cmd ''puppeteer-monitor''"
        using marked_row_marked_command [of line cmd sep digits ws] r l(2) by blast
      moreover from lit have "containsMarker cmd" by (rule literal_marker_containsMarker)
      ultimately show "pid = digits \<and> containsMarker cmd \<and>
            (str_includes cmd ''browsermonitor'' \<or> str_includes cmd ''puppeteer-monitor'')"
        by blast
    qed
    from l(1) have "line \<in> set (split_newline out)" by simp
    moreover from l(2) have "containsMarker line" by (rule literal_marker_containsMarker)
    ultimately show ?thesis using o l(2,3) row by blast
  qed
  have t: "taskkilled (killPuppeteerMonitorChromes True env) = []"
    by (simp add: killPuppeteerMonitorChromes_def split: option.split)
  have s: "stopped (killPuppeteerMonitorChromes False env) = []"
    by (simp add: killPuppeteerMonitorChromes_def Let_def split: option.split list.split)
  have nps: "stopped (killPuppeteerMonitorChromes True env) = []"
    if n: "\<forall>chromes. ps_chromes env = Some chromes \<longrightarrow>
       (\<forall>p\<in>set chromes. \<forall>cmd. CommandLine p = Some cmd \<longrightarrow> \<not> containsMarker cmd)"
  proof (rule ccontr)
    assume "stopped (killPuppeteerMonitorChromes True env) \<noteq> []"
    then obtain pid where "pid \<in> set (stopped (killPuppeteerMonitorChromes True env))"
      by (cases "stopped (killPuppeteerMonitorChromes True env)") auto
    from ps [OF this] n show False by blast
  qed
  have nwm: "taskkilled (killPuppeteerMonitorChromes False env) = []"
    if n: "\<forall>out. wmicOutput env = Some out \<longrightarrow>
       (\<forall>line\<in>set (split_newline out). \<not> containsMarker line)"
  proof (rule ccontr)
    assume "taskkilled (killPuppeteerMonitorChromes False env) \<noteq> []"
    then obtain pid where "pid \<in> set (taskkilled (killPuppeteerMonitorChromes False env))"
      by (cases "taskkilled (killPuppeteerMonitorChromes False env)") auto
    from wm [OF this] n show False by blast
  qed
  from ps wm t s nps nwm show ?thesis by blast
qed

theorem killPuppeteerMonitorChromes_only_marked_witness:
  "stopped (killPuppeteerMonitorChromes True
      \<lparr>ps_chromes = Some
           [\<lparr>ProcessId = 1111, CommandLine = Some ''chrome.exe --profile-directory=Default''\<rparr>,
            \<lparr>ProcessId = 1234,
             CommandLine = Some ''chrome.exe --user-data-dir=C:/L/browsermonitor/app_1a2b''\<rparr>],
         wmicOutput = Some
           (''CommandLine  ProcessId'' @ [CHR 0x0D, CHR 0x0A] @
            ''chrome.exe --profile-directory=Default  1111 '' @ [CHR 0x0D, CHR 0x0A] @
            ''chrome.exe --user-data-dir=C:/L/browsermonitor/app_1a2b  1234 '' @ [CHR 0x0D, CHR 0x0A]),
         taskkill_throws = False\<rparr>) = [1234] \<and>
   (\<exists>chromes p cmd.
      ps_chromes \<lparr>ps_chromes = Some
           [\<lparr>ProcessId = 1111, CommandLine = Some ''chrome.exe --profile-directory=Default''\<rparr>,
            \<lparr>ProcessId = 1234,
             CommandLine = Some ''chrome.exe --user-data-dir=C:/L/browsermonitor/app_1a2b''\<rparr>],
         wmicOutput = Some
           (''CommandLine  ProcessId'' @ [CHR 0x0D, CHR 0x0A] @
            ''chrome.exe --profile-directory=Default  1111 '' @ [CHR 0x0D, CHR 0x0A] @
            ''chrome.exe --user-data-dir=C:/L/browsermonitor/app_1a2b  1234 '' @ [CHR 0x0D, CHR 0x0A]),
         taskkill_throws = False\<rparr> = Some chromes \<and> p \<in> set chromes \<and> ProcessId p = 1234 \<and>
      CommandLine p = Some cmd \<and> containsMarker cmd) \<and>
   taskkilled (killPuppeteerMonitorChromes False
      \<lparr>ps_chromes = Some
           [\<lparr>ProcessId = 1111, CommandLine = Some ''chrome.exe --profile-directory=Default''\<rparr>,
            \<lparr>ProcessId = 1234,
             CommandLine = Some ''chrome.exe --user-data-dir=C:/L/browsermonitor/app_1a2b''\<rparr>],
         wmicOutput = Some
           (''CommandLine  ProcessId'' @ [CHR 0x0D, CHR 0x0A] @
            ''chrome.exe --profile-directory=Default  1111 '' @ [CHR 0x0D, CHR 0x0A] @
            ''chrome.exe --user-data-dir=C:/L/browsermonitor/app_1a2b  1234 '' @ [CHR 0x0D, CHR 0x0A]),
         taskkill_throws = False\<rparr>) = [''1234''] \<and>
   (\<exists>out line.
      wmicOutput \<lparr>ps_chromes = Some
           [\<lparr>ProcessId = 1111, CommandLine = Some ''chrome.exe --profile-directory=Default''\<rparr>,
            \<lparr>ProcessId = 1234,
             CommandLine = Some ''chrome.exe --user-data-dir=C:/L/browsermonitor/app_1a2b''\<rparr>],
         wmicOutput = Some
           (''CommandLine  ProcessId'' @ [CHR 0x0D, CHR 0x0A] @
            ''chrome.exe --profile-directory=Default  1111 '' @ [CHR 0x0D, CHR 0x0A] @
            ''chrome.exe --user-data-dir=C:/L/browsermonitor/app_1a2b  1234 '' @ [CHR 0x0D, CHR 0x0A]),
         taskkill_throws = False\<rparr> = Some out \<and> line \<in> set (split_newline out) \<and>
      containsMarker line \<and> pidMatch line = Some ''1234'') \<and>
   \<not> containsMarker ''chrome.exe --profile-directory=Default'' \<and>
   stopped (killPuppeteerMonitorChromes True
      \<lparr>ps_chromes = Some
           [\<lparr>ProcessId = 1111, CommandLine = Some ''chrome.exe --profile-directory=Default''\<rparr>],
         wmicOutput = None, taskkill_throws = False\<rparr>) = []"
proof -
  let ?env = "\<lparr>ps_chromes = Some
           [\<lparr>ProcessId = 1111, CommandLine = Some ''chrome.exe --profile-directory=Default''\<rparr>,
            \<lparr>ProcessId = 1234,
             CommandLine = Some ''chrome.exe --user-data-dir=C:/L/browsermonitor/app_1a2b''\<rparr>],
         wmicOutput = Some
           (''CommandLine  ProcessId'' @ [CHR 0x0D, CHR 0x0A] @
            ''chrome.exe --profile-directory=Default  1111 '' @ [CHR 0x0D, CHR 0x0A] @
            ''chrome.exe --user-data-dir=C:/L/browsermonitor/app_1a2b  1234 '' @ [CHR 0x0D, CHR 0x0A]),
         taskkill_throws = False\<rparr>"
  let ?personal = "\<lparr>ps_chromes = Some
           [\<lparr>ProcessId = 1111, CommandLine = Some ''chrome.exe --profile-directory=Default''\<rparr>],
         wmicOutput = None, taskkill_throws = False\<rparr>"
  have s: "stopped (killPuppeteerMonitorChromes True ?env) = [1234]"
    by (simp add: killPuppeteerMonitorChromes_def ps_match_marker_def toLowerCase_def
        toLowerCase_char_def)
  then have sm: "1234 \<in> set (stopped (killPuppeteerMonitorChromes True ?env))" by simp
  have t: "taskkilled (killPuppeteerMonitorChromes False ?env) = [''1234'']"
    by (simp add: killPuppeteerMonitorChromes_def Let_def trim_def isSpace_def pidMatch_def
        isDigit_def)
  then have tm: "''1234'' \<in> set (taskkilled (killPuppeteerMonitorChromes False ?env))" by simp
  from killPuppeteerMonitorChromes_only_marked [of ?env, THEN conjunct1, THEN spec, THEN mp, OF sm]
  have a: "\<exists>chromes p cmd.
      ps_chromes ?env = Some chromes \<and> p \<in> set chromes \<and> ProcessId p = 1234 \<and>
      CommandLine p = Some cmd \<and> containsMarker cmd" .
  from killPuppeteerMonitorChromes_only_marked [of ?env, THEN conjunct2, THEN conjunct2,
      THEN conjunct2, THEN conjunct1, THEN spec, THEN mp, OF tm]
  have b: "\<exists>out line.
      wmicOutput ?env = Some out \<and> line \<in> set (split_newline out) \<and>
      containsMarker line \<and> pidMatch line = Some ''1234''"
    by blast
  have n: "\<not> containsMarker ''chrome.exe --profile-directory=Default''"
    by (simp add: containsMarker_def toLowerCase_def toLowerCase_char_def)
  then have h: "\<forall>chromes. ps_chromes ?personal = Some chromes \<longrightarrow>
       (\<forall>p\<in>set chromes. \<forall>cmd. CommandLine p = Some cmd \<longrightarrow> \<not> containsMarker cmd)"
    by simp
  from killPuppeteerMonitorChromes_only_marked [of ?personal, THEN conjunct2, THEN conjunct2,
      THEN conjunct2, THEN conjunct2, THEN conjunct1, THEN mp, OF h]
  have c: "stopped (killPuppeteerMonitorChromes True ?personal) = []" .
  from s a t b n c show ?thesis by blast
qed

section \<open>Properties of findProjectChrome\<close>

lemma findProjectChrome_loop_Cons:
  "findProjectChrome_loop pn pid (i # rest) =
     (if exactProfileMatch pid i
      then Some \<lparr>found = True, matched_instance = Some i, matchType = Exact\<rparr>
      else if legacyNameMatch pn i
      then Some \<lparr>found = True, matched_instance = Some i, matchType = Legacy\<rparr>
      else findProjectChrome_loop pn pid rest)"
  by (cases "str_includes (toLowerCase (profile i)) pid";
      cases "str_includes (toLowerCase (profile i)) ''browsermonitor''";
      cases "str_includes (toLowerCase (profile i)) ''puppeteer-monitor''";
      cases "str_includes (toLowerCase (profile i)) (toLowerCase pn)";
      cases "str_includes (toLowerCase (profile i)) ''.puppeteer-profile''";
      simp add: Let_def exactProfileMatch_def legacyNameMatch_def)

lemma findProjectChrome_loop_find:
  "findProjectChrome_loop pn pid insts =
     (case find (\<lambda>i. exactProfileMatch pid i \<or> legacyNameMatch pn i) insts of
        Some i \<Rightarrow> Some \<lparr>found = True, matched_instance = Some i,
                        matchType = (if exactProfileMatch pid i then Exact else Legacy)\<rparr>
      | None \<Rightarrow> None)"
proof (induction insts)
  case Nil
  show ?case by simp
next
  case (Cons i insts)
  show ?case
    unfolding findProjectChrome_loop_Cons using Cons.IH by simp
qed

lemma find_first_append:
  "P x \<Longrightarrow> \<forall>j\<in>set pre. \<not> P j \<Longrightarrow> find P (pre @ x # post) = Some x"
  by (induction pre) simp_all

lemma find_none_all:
  "\<forall>j\<in>set xs. \<not> P j \<Longrightarrow> find P xs = None"
  by (induction xs) simp_all

text \<open>
  C2 (as amended). \<open>findProjectChrome\<close> walks the instances in list order and returns the
  first one whose profile matches the project, by exact profile id or by the legacy naming
  convention; on one and the same instance the exact test comes first, and
  \<open>matchType\<close> is \<open>Exact\<close> or \<open>Legacy\<close> accordingly. Only when no instance matches
  either way does it fall back to the first instance bound to 0.0.0.0 (\<open>Accessible\<close>), and
  only when there is none to the first instance of the list (\<open>First\<close>); the empty list gives
  \<open>MatchNone\<close>.
\<close>

theorem findProjectChrome_list_order:
  "(instances = [] \<longrightarrow>
      findProjectChrome instances projectName expectedProfileId =
        \<lparr>found = False, matched_instance = None, matchType = MatchNone\<rparr>) \<and>
   (\<forall>pre i post.
      instances = pre @ i # post \<and>
      (\<forall>j\<in>set pre. \<not> exactProfileMatch expectedProfileId j \<and> \<not> legacyNameMatch projectName j) \<and>
      (exactProfileMatch expectedProfileId i \<or> legacyNameMatch projectName i) \<longrightarrow>
      findProjectChrome instances projectName expectedProfileId =
        \<lparr>found = True, matched_instance = Some i,
         matchType = (if exactProfileMatch expectedProfileId i then Exact else Legacy)\<rparr>) \<and>
   ((\<forall>j\<in>set instances. \<not> exactProfileMatch expectedProfileId j \<and> \<not> legacyNameMatch projectName j) \<longrightarrow>
      (\<forall>pre a post.
         instances = pre @ a # post \<and> (\<forall>j\<in>set pre. bindAddress j \<noteq> ''0.0.0.0'') \<and>
         bindAddress a = ''0.0.0.0'' \<longrightarrow>
         findProjectChrome instances projectName expectedProfileId =
           \<lparr>found = False, matched_instance = Some a, matchType = Accessible\<rparr>) \<and>
      (\<forall>first_inst rest.
         instances = first_inst # rest \<and> (\<forall>j\<in>set instances. bindAddress j \<noteq> ''0.0.0.0'') \<longrightarrow>
         findProjectChrome instances projectName expectedProfileId =
           \<lparr>found = False, matched_instance = Some first_inst, matchType = First\<rparr>))"
proof (intro conjI allI impI)
  assume "instances = []"
  then show "findProjectChrome instances projectName expectedProfileId =
        \<lparr>found = False, matched_instance = None, matchType = MatchNone\<rparr>"
    by (simp add: findProjectChrome_def)
next
  fix pre i post
  assume a: "instances = pre @ i # post \<and>
      (\<forall>j\<in>set pre. \<not> exactProfileMatch expectedProfileId j \<and> \<not> legacyNameMatch projectName j) \<and>
      (exactProfileMatch expectedProfileId i \<or> legacyNameMatch projectName i)"
  then have "find (\<lambda>i. exactProfileMatch expectedProfileId i \<or> legacyNameMatch projectName i) instances
             = Some i"
    using find_first_append [of "\<lambda>i. exactProfileMatch expectedProfileId i \<or> legacyNameMatch projectName i" i pre post]
    by blast
  moreover from a have "instances \<noteq> []" by simp
  ultimately show "findProjectChrome instances projectName expectedProfileId =
        \<lparr>found = True, matched_instance = Some i,
         matchType = (if exactProfileMatch expectedProfileId i then Exact else Legacy)\<rparr>"
    by (cases instances) (simp_all add: findProjectChrome_def findProjectChrome_loop_find)
next
  fix pre a post
  assume none: "\<forall>j\<in>set instances. \<not> exactProfileMatch expectedProfileId j \<and> \<not> legacyNameMatch projectName j"
    and a: "instances = pre @ a # post \<and> (\<forall>j\<in>set pre. bindAddress j \<noteq> ''0.0.0.0'') \<and>
         bindAddress a = ''0.0.0.0''"
  from none have l: "findProjectChrome_loop projectName expectedProfileId instances = None"
    using find_none_all [of instances "\<lambda>i. exactProfileMatch expectedProfileId i \<or> legacyNameMatch projectName i"]
    by (simp add: findProjectChrome_loop_find)
  from a have f: "find (\<lambda>i. bindAddress i = ''0.0.0.0'') instances = Some a"
    using find_first_append [of "\<lambda>i. bindAddress i = ''0.0.0.0''" a pre post] by blast
  from a have "instances \<noteq> []" by simp
  with l f show "findProjectChrome instances projectName expectedProfileId =
           \<lparr>found = False, matched_instance = Some a, matchType = Accessible\<rparr>"
    by (cases instances) (simp_all add: findProjectChrome_def)
next
  fix first_inst rest
  assume none: "\<forall>j\<in>set instances. \<not> exactProfileMatch expectedProfileId j \<and> \<not> legacyNameMatch projectName j"
    and a: "instances = first_inst # rest \<and> (\<forall>j\<in>set instances. bindAddress j \<noteq> ''0.0.0.0'')"
  from none have l: "findProjectChrome_loop projectName expectedProfileId instances = None"
    using find_none_all [of instances "\<lambda>i. exactProfileMatch expectedProfileId i \<or> legacyNameMatch projectName i"]
    by (simp add: findProjectChrome_loop_find)
  from a have f: "find (\<lambda>i. bindAddress i = ''0.0.0.0'') instances = None"
    using find_none_all [of instances "\<lambda>i. bindAddress i = ''0.0.0.0''"] by simp
  from a l f show "findProjectChrome instances projectName expectedProfileId =
           \<lparr>found = False, matched_instance = Some first_inst, matchType = First\<rparr>"
    by (simp add: findProjectChrome_def)
qed

theorem findProjectChrome_list_order_witness:
  "legacyNameMatch ''myapp''
     \<lparr>port = 9222, profile = ''C:/work/MyApp/.puppeteer-profile'', bindAddress = ''127.0.0.1''\<rparr> \<and>
   findProjectChrome
     [\<lparr>port = 9222, profile = ''C:/work/MyApp/.puppeteer-profile'', bindAddress = ''127.0.0.1''\<rparr>,
      \<lparr>port = 9223, profile = ''C:/browsermonitor/myapp_1a2b3c'', bindAddress = ''127.0.0.1''\<rparr>]
     ''myapp'' ''myapp_1a2b3c'' =
     \<lparr>found = True,
      matched_instance =
        Some \<lparr>port = 9222, profile = ''C:/work/MyApp/.puppeteer-profile'', bindAddress = ''127.0.0.1''\<rparr>,
      matchType = Legacy\<rparr> \<and>
   findProjectChrome
     [\<lparr>port = 9222, profile = ''default'', bindAddress = ''127.0.0.1''\<rparr>,
      \<lparr>port = 9223, profile = ''C:/tmp/other'', bindAddress = ''0.0.0.0''\<rparr>]
     ''myapp'' ''myapp_1a2b3c'' =
     \<lparr>found = False,
      matched_instance = Some \<lparr>port = 9223, profile = ''C:/tmp/other'', bindAddress = ''0.0.0.0''\<rparr>,
      matchType = Accessible\<rparr> \<and>
   findProjectChrome
     [\<lparr>port = 9222, profile = ''default'', bindAddress = ''127.0.0.1''\<rparr>]
     ''myapp'' ''myapp_1a2b3c'' =
     \<lparr>found = False,
      matched_instance = Some \<lparr>port = 9222, profile = ''default'', bindAddress = ''127.0.0.1''\<rparr>,
      matchType = First\<rparr>"
proof -
  let ?pn = "''myapp''" and ?pid = "''myapp_1a2b3c''"
  let ?A = "\<lparr>port = 9222, profile = ''C:/work/MyApp/.puppeteer-profile'', bindAddress = ''127.0.0.1''\<rparr>"
  let ?B = "\<lparr>port = 9223, profile = ''C:/browsermonitor/myapp_1a2b3c'', bindAddress = ''127.0.0.1''\<rparr>"
  let ?C = "\<lparr>port = 9222, profile = ''default'', bindAddress = ''127.0.0.1''\<rparr>"
  let ?D = "\<lparr>port = 9223, profile = ''C:/tmp/other'', bindAddress = ''0.0.0.0''\<rparr>"
  have legA: "legacyNameMatch ?pn ?A"
    by (simp add: legacyNameMatch_def toLowerCase_def toLowerCase_char_def)
  have nexA: "\<not> exactProfileMatch ?pid ?A"
    by (simp add: exactProfileMatch_def toLowerCase_def toLowerCase_char_def)
  have nC: "\<not> exactProfileMatch ?pid ?C \<and> \<not> legacyNameMatch ?pn ?C"
    by (simp add: exactProfileMatch_def legacyNameMatch_def toLowerCase_def toLowerCase_char_def)
  have nD: "\<not> exactProfileMatch ?pid ?D \<and> \<not> legacyNameMatch ?pn ?D"
    by (simp add: exactProfileMatch_def legacyNameMatch_def toLowerCase_def toLowerCase_char_def)
  have h1: "[?A, ?B] = [] @ ?A # [?B] \<and>
      (\<forall>j\<in>set []. \<not> exactProfileMatch ?pid j \<and> \<not> legacyNameMatch ?pn j) \<and>
      (exactProfileMatch ?pid ?A \<or> legacyNameMatch ?pn ?A)"
    using legA by simp
  have r1: "findProjectChrome [?A, ?B] ?pn ?pid =
      \<lparr>found = True, matched_instance = Some ?A, matchType = Legacy\<rparr>"
    using findProjectChrome_list_order [of "[?A, ?B]" ?pn ?pid, THEN conjunct2, THEN conjunct1,
        THEN spec, THEN spec, THEN spec, THEN mp, OF h1] nexA
    by simp
  have none2: "\<forall>j\<in>set [?C, ?D]. \<not> exactProfileMatch ?pid j \<and> \<not> legacyNameMatch ?pn j"
    using nC nD by simp
  have h2: "[?C, ?D] = [?C] @ ?D # [] \<and> (\<forall>j\<in>set [?C]. bindAddress j \<noteq> ''0.0.0.0'') \<and>
      bindAddress ?D = ''0.0.0.0''"
    by simp
  have r2: "findProjectChrome [?C, ?D] ?pn ?pid =
      \<lparr>found = False, matched_instance = Some ?D, matchType = Accessible\<rparr>"
    using findProjectChrome_list_order [of "[?C, ?D]" ?pn ?pid, THEN conjunct2, THEN conjunct2,
        THEN mp, OF none2, THEN conjunct1, THEN spec, THEN spec, THEN spec, THEN mp, OF h2]
    by simp
  have none3: "\<forall>j\<in>set [?C]. \<not> exactProfileMatch ?pid j \<and> \<not> legacyNameMatch ?pn j"
    using nC by simp
  have h3: "[?C] = ?C # [] \<and> (\<forall>j\<in>set [?C]. bindAddress j \<noteq> ''0.0.0.0'')"
    by simp
  have r3: "findProjectChrome [?C] ?pn ?pid =
      \<lparr>found = False, matched_instance = Some ?C, matchType = First\<rparr>"
    using findProjectChrome_list_order [of "[?C]" ?pn ?pid, THEN conjunct2, THEN conjunct2,
        THEN mp, OF none3, THEN conjunct2, THEN spec, THEN spec, THEN mp, OF h3]
    by simp
  from legA r1 r2 r3 show ?thesis by simp
qed

text \<open>
  C2 as stated fails: an instance that matches only by the legacy convention and stands
  earlier in the list is returned although a later instance matches the profile id exactly.
\<close>

theorem exact_not_preferred_counterexample:
  "exactProfileMatch ''myapp_1a2b3c''
     \<lparr>port = 9223, profile = ''C:/Users/me/AppData/Local/browsermonitor/myapp_1a2b3c'',
      bindAddress = ''127.0.0.1''\<rparr> \<and>
   findProjectChrome
     [\<lparr>port = 9222, profile = ''C:/work/myapp/.puppeteer-profile'', bindAddress = ''127.0.0.1''\<rparr>,
      \<lparr>port = 9223, profile = ''C:/Users/me/AppData/Local/browsermonitor/myapp_1a2b3c'',
       bindAddress = ''127.0.0.1''\<rparr>]
     ''myapp'' ''myapp_1a2b3c'' =
   \<lparr>found = True,
    matched_instance =
      Some \<lparr>port = 9222, profile = ''C:/work/myapp/.puppeteer-profile'', bindAddress = ''127.0.0.1''\<rparr>,
    matchType = Legacy\<rparr>"
  by (simp add: findProjectChrome_def exactProfileMatch_def toLowerCase_def toLowerCase_char_def Let_def)

section \<open>Properties of the page lists and of page selection\<close>

lemma isUserPage_schemes:
  "isUserPage pg \<Longrightarrow>
     \<not> startsWith (url pg) ''chrome://'' \<and> \<not> startsWith (url pg) ''chrome-extension://'' \<and>
     \<not> startsWith (url pg) ''devtools://'' \<and> url pg \<noteq> ''about:blank''"
  by (simp add: isUserPage_def split: if_splits)

lemma connectPages_set:
  "pg \<in> set (connectPages allPages) \<longleftrightarrow>
     pg \<in> set allPages \<and> (isUserPage pg \<or> (\<forall>q\<in>set allPages. \<not> isUserPage q))"
  by (auto simp: connectPages_def Let_def filter_empty_conv)

lemma tabPages_set:
  "pg \<in> set (tabPages allPages) \<longleftrightarrow>
     pg \<in> set allPages \<and> isUserPage_tabs pg \<and>
     (url pg = ''about:blank'' \<longrightarrow>
        (\<forall>q\<in>set allPages. isUserPage_tabs q \<longrightarrow> url q = ''about:blank''))"
  by (auto simp: tabPages_def Let_def filter_empty_conv)

lemma tabPages_only_blank:
  assumes "\<forall>q\<in>set allPages. isUserPage_tabs q \<longrightarrow> url q = ''about:blank''"
  shows "tabPages allPages = filter isUserPage_tabs allPages"
proof -
  have "filter (\<lambda>pg. url pg \<noteq> ''about:blank'') (filter isUserPage_tabs allPages) = []"
    using assms by (simp add: filter_empty_conv)
  then show ?thesis by (simp add: tabPages_def Let_def)
qed

lemma tabPages_some_non_blank:
  assumes "q \<in> set allPages" and "isUserPage_tabs q" and "url q \<noteq> ''about:blank''"
  shows "tabPages allPages =
         filter (\<lambda>pg. isUserPage_tabs pg \<and> url pg \<noteq> ''about:blank'') allPages"
proof -
  have "filter (\<lambda>pg. url pg \<noteq> ''about:blank'') (filter isUserPage_tabs allPages) \<noteq> []"
    using assms by (auto simp: filter_empty_conv)
  then show ?thesis by (simp add: tabPages_def Let_def conj_commute)
qed

lemma tab_listing_urls:
  "map (snd \<circ> (\<lambda>(i, pg). (Suc i, url pg))) (enumerate n pages) = map url pages"
  by (induction pages arbitrary: n) simp_all

lemma tab_listing_indices:
  "map (fst \<circ> (\<lambda>(i, pg). (Suc i, url pg))) (enumerate n pages) =
     [Suc n..<Suc (n + length pages)]"
  by (induction pages arbitrary: n) (simp_all del: upt_Suc add: upt_conv_Cons)

text \<open>
  C6 (as amended). At connection time the page list is the list of the pages that pass
  \<open>isUserPage\<close> (none of them internal, devtools, extension or blank) when there is such a
  page, and the unfiltered list otherwise. In switch-tabs and in the HTTP tab listing the
  list never holds a page with the scheme chrome://, devtools:// or chrome-extension://:
  it is the non-blank pages among the others when there is one, else the blank pages
  among them, and it is empty, not the unfiltered list, when every page is internal. A
  blank page is thus listed only when no non-blank candidate exists.
\<close>

theorem user_page_lists:
  "(filter isUserPage allPages \<noteq> [] \<longrightarrow>
      connectPages allPages = filter isUserPage allPages \<and>
      (\<forall>pg\<in>set (connectPages allPages).
         \<not> startsWith (url pg) ''chrome://'' \<and> \<not> startsWith (url pg) ''chrome-extension://'' \<and>
         \<not> startsWith (url pg) ''devtools://'' \<and> url pg \<noteq> ''about:blank'')) \<and>
   (filter isUserPage allPages = [] \<longrightarrow> connectPages allPages = allPages) \<and>
   (\<forall>pg\<in>set (tabPages allPages).
      pg \<in> set allPages \<and>
      \<not> startsWith (url pg) ''chrome://'' \<and> \<not> startsWith (url pg) ''devtools://'' \<and>
      \<not> startsWith (url pg) ''chrome-extension://'') \<and>
   (\<forall>q\<in>set allPages.
      isUserPage_tabs q \<and> url q \<noteq> ''about:blank'' \<longrightarrow>
      tabPages allPages =
        filter (\<lambda>pg. isUserPage_tabs pg \<and> url pg \<noteq> ''about:blank'') allPages) \<and>
   ((\<forall>q\<in>set allPages. isUserPage_tabs q \<longrightarrow> url q = ''about:blank'') \<longrightarrow>
      tabPages allPages = filter isUserPage_tabs allPages) \<and>
   ((\<forall>q\<in>set allPages. \<not> isUserPage_tabs q) \<longrightarrow> tabPages allPages = []) \<and>
   map snd (getAllTabs (Some allPages)) = map url (tabPages allPages) \<and>
   map fst (getAllTabs (Some allPages)) = [1..<Suc (length (tabPages allPages))] \<and>
   (switchTabs askUserToSelectPage (Some allPages) = NoUserTabs \<longleftrightarrow> tabPages allPages = [])"
proof (intro conjI)
  show "filter isUserPage allPages \<noteq> [] \<longrightarrow>
      connectPages allPages = filter isUserPage allPages \<and>
      (\<forall>pg\<in>set (connectPages allPages).
         \<not> startsWith (url pg) ''chrome://'' \<and> \<not> startsWith (url pg) ''chrome-extension://'' \<and>
         \<not> startsWith (url pg) ''devtools://'' \<and> url pg \<noteq> ''about:blank'')"
  proof
    assume ne: "filter isUserPage allPages \<noteq> []"
    then have e: "connectPages allPages = filter isUserPage allPages"
      by (simp add: connectPages_def Let_def)
    moreover have "\<forall>pg\<in>set (filter isUserPage allPages).
         \<not> startsWith (url pg) ''chrome://'' \<and> \<not> startsWith (url pg) ''chrome-extension://'' \<and>
         \<not> startsWith (url pg) ''devtools://'' \<and> url pg \<noteq> ''about:blank''"
      using isUserPage_schemes by simp
    ultimately show "connectPages allPages = filter isUserPage allPages \<and>
      (\<forall>pg\<in>set (connectPages allPages).
         \<not> startsWith (url pg) ''chrome://'' \<and> \<not> startsWith (url pg) ''chrome-extension://'' \<and>
         \<not> startsWith (url pg) ''devtools://'' \<and> url pg \<noteq> ''about:blank'')"
      by simp
  qed
next
  show "filter isUserPage allPages = [] \<longrightarrow> connectPages allPages = allPages"
    by (simp add: connectPages_def Let_def)
next
  show "\<forall>pg\<in>set (tabPages allPages).
      pg \<in> set allPages \<and>
      \<not> startsWith (url pg) ''chrome://'' \<and> \<not> startsWith (url pg) ''devtools://'' \<and>
      \<not> startsWith (url pg) ''chrome-extension://''"
    using tabPages_set [of _ allPages] by (simp add: isUserPage_tabs_def)
next
  show "\<forall>q\<in>set allPages.
      isUserPage_tabs q \<and> url q \<noteq> ''about:blank'' \<longrightarrow>
      tabPages allPages =
        filter (\<lambda>pg. isUserPage_tabs pg \<and> url pg \<noteq> ''about:blank'') allPages"
    using tabPages_some_non_blank by blast
next
  show "(\<forall>q\<in>set allPages. isUserPage_tabs q \<longrightarrow> url q = ''about:blank'') \<longrightarrow>
      tabPages allPages = filter isUserPage_tabs allPages"
    using tabPages_only_blank by blast
next
  show "(\<forall>q\<in>set allPages. \<not> isUserPage_tabs q) \<longrightarrow> tabPages allPages = []"
    by (simp add: tabPages_def Let_def filter_empty_conv)
next
  show "map snd (getAllTabs (Some allPages)) = map url (tabPages allPages)"
    by (simp add: getAllTabs_def tab_listing_urls)
next
  show "map fst (getAllTabs (Some allPages)) = [1..<Suc (length (tabPages allPages))]"
    using tab_listing_indices [of 0 "tabPages allPages"]
    by (simp add: getAllTabs_def del: upt_Suc)
next
  show "switchTabs askUserToSelectPage (Some allPages) = NoUserTabs \<longleftrightarrow> tabPages allPages = []"
    by (simp add: switchTabs_def split: list.split option.split)
qed

theorem user_page_lists_witness:
  "filter isUserPage [\<lparr>pageId = 1, url = ''chrome://newtab/''\<rparr>, \<lparr>pageId = 2, url = ''about:blank''\<rparr>,
          \<lparr>pageId = 3, url = ''http://localhost:4000/''\<rparr>] \<noteq> [] \<and>
   connectPages [\<lparr>pageId = 1, url = ''chrome://newtab/''\<rparr>, \<lparr>pageId = 2, url = ''about:blank''\<rparr>,
          \<lparr>pageId = 3, url = ''http://localhost:4000/''\<rparr>] = [\<lparr>pageId = 3, url = ''http://localhost:4000/''\<rparr>] \<and>
   tabPages [\<lparr>pageId = 1, url = ''chrome://newtab/''\<rparr>, \<lparr>pageId = 2, url = ''about:blank''\<rparr>,
          \<lparr>pageId = 3, url = ''http://localhost:4000/''\<rparr>] = [\<lparr>pageId = 3, url = ''http://localhost:4000/''\<rparr>] \<and>
   filter isUserPage [\<lparr>pageId = 1, url = ''chrome://newtab/''\<rparr>, \<lparr>pageId = 2, url = ''about:blank''\<rparr>] = [] \<and>
   connectPages [\<lparr>pageId = 1, url = ''chrome://newtab/''\<rparr>, \<lparr>pageId = 2, url = ''about:blank''\<rparr>] = [\<lparr>pageId = 1, url = ''chrome://newtab/''\<rparr>, \<lparr>pageId = 2, url = ''about:blank''\<rparr>] \<and>
   tabPages [\<lparr>pageId = 1, url = ''chrome://newtab/''\<rparr>, \<lparr>pageId = 2, url = ''about:blank''\<rparr>] = [\<lparr>pageId = 2, url = ''about:blank''\<rparr>]"
proof -
  let ?A = "[\<lparr>pageId = 1, url = ''chrome://newtab/''\<rparr>, \<lparr>pageId = 2, url = ''about:blank''\<rparr>,
          \<lparr>pageId = 3, url = ''http://localhost:4000/''\<rparr>]"
  let ?B = "[\<lparr>pageId = 1, url = ''chrome://newtab/''\<rparr>, \<lparr>pageId = 2, url = ''about:blank''\<rparr>]"
  have fa: "filter isUserPage ?A = [\<lparr>pageId = 3, url = ''http://localhost:4000/''\<rparr>]"
    by (simp add: isUserPage_def startsWith_def)
  then have ne: "filter isUserPage ?A \<noteq> []" by simp
  from user_page_lists [of ?A, THEN conjunct1, THEN mp, OF ne] fa
  have ca: "connectPages ?A = [\<lparr>pageId = 3, url = ''http://localhost:4000/''\<rparr>]" by simp
  have m: "\<lparr>pageId = 3, url = ''http://localhost:4000/''\<rparr> \<in> set ?A" by simp
  have u: "isUserPage_tabs \<lparr>pageId = 3, url = ''http://localhost:4000/''\<rparr> \<and>
           url \<lparr>pageId = 3, url = ''http://localhost:4000/''\<rparr> \<noteq> ''about:blank''"
    by (simp add: isUserPage_tabs_def startsWith_def)
  from user_page_lists [of ?A, THEN conjunct2, THEN conjunct2, THEN conjunct2, THEN conjunct1,
      THEN bspec, OF m, THEN mp, OF u]
  have ta: "tabPages ?A = [\<lparr>pageId = 3, url = ''http://localhost:4000/''\<rparr>]"
    by (simp add: isUserPage_tabs_def startsWith_def)
  have fb: "filter isUserPage ?B = []"
    by (simp add: isUserPage_def startsWith_def)
  from user_page_lists [of ?B, THEN conjunct2, THEN conjunct1, THEN mp, OF fb]
  have cb: "connectPages ?B = ?B" .
  have ob: "\<forall>q\<in>set ?B. isUserPage_tabs q \<longrightarrow> url q = ''about:blank''"
    by (simp add: isUserPage_tabs_def startsWith_def)
  from user_page_lists [of ?B, THEN conjunct2, THEN conjunct2, THEN conjunct2, THEN conjunct2,
      THEN conjunct1, THEN mp, OF ob]
  have tb: "tabPages ?B = [\<lparr>pageId = 2, url = ''about:blank''\<rparr>]"
    by (simp add: isUserPage_tabs_def startsWith_def)
  from ne ca ta fb cb tb show ?thesis by blast
qed

text \<open>
  C6 as stated fails in switch-tabs and in the HTTP tab listing: when every page is an
  internal page the filtered list is empty and stays empty; the unfiltered list is not
  returned.
\<close>

theorem tab_listing_no_fallback_counterexample:
  "tabPages [\<lparr>pageId = 1, url = ''chrome://newtab/''\<rparr>] = [] \<and>
   getAllTabs (Some [\<lparr>pageId = 1, url = ''chrome://newtab/''\<rparr>]) = [] \<and>
   switchTabs (\<lambda>pages. None) (Some [\<lparr>pageId = 1, url = ''chrome://newtab/''\<rparr>]) = NoUserTabs \<and>
   connectPages [\<lparr>pageId = 1, url = ''chrome://newtab/''\<rparr>] = [\<lparr>pageId = 1, url = ''chrome://newtab/''\<rparr>]"
  by (simp add: tabPages_def getAllTabs_def switchTabs_def connectPages_def isUserPage_tabs_def
      isUserPage_def startsWith_def)

text \<open>
  C7. At connection time a single candidate page is selected without any prompt; with
  two or more candidates exactly one prompt over the candidates is issued, and the
  selected page is the operator's pick, or the first candidate when the prompt resolves
  to no page.
\<close>

theorem selectPage_auto_or_prompt:
  "(pages = [only] \<longrightarrow>
      selectPage askUserToSelectPage pages = \<lparr>prompts = [], selectedPage = Some only\<rparr>) \<and>
   (pages = first_page # second_page # others \<longrightarrow>
      prompts (selectPage askUserToSelectPage pages) = [pages] \<and>
      (askUserToSelectPage pages = None \<longrightarrow>
         selectedPage (selectPage askUserToSelectPage pages) = Some first_page) \<and>
      (\<forall>picked. askUserToSelectPage pages = Some picked \<longrightarrow>
         selectedPage (selectPage askUserToSelectPage pages) = Some picked))"
  by (simp add: selectPage_def split: option.split)

theorem selectPage_auto_or_prompt_witness:
  "selectPage (\<lambda>pages. None) [\<lparr>pageId = 3, url = ''http://localhost:4000/''\<rparr>] =
     \<lparr>prompts = [], selectedPage = Some \<lparr>pageId = 3, url = ''http://localhost:4000/''\<rparr>\<rparr> \<and>
   prompts (selectPage (\<lambda>pages. None)
     [\<lparr>pageId = 3, url = ''http://localhost:4000/''\<rparr>, \<lparr>pageId = 4, url = ''http://localhost:4000/a''\<rparr>]) =
     [[\<lparr>pageId = 3, url = ''http://localhost:4000/''\<rparr>, \<lparr>pageId = 4, url = ''http://localhost:4000/a''\<rparr>]] \<and>
   selectedPage (selectPage (\<lambda>pages. None)
     [\<lparr>pageId = 3, url = ''http://localhost:4000/''\<rparr>, \<lparr>pageId = 4, url = ''http://localhost:4000/a''\<rparr>]) =
     Some \<lparr>pageId = 3, url = ''http://localhost:4000/''\<rparr> \<and>
   selectedPage (selectPage (\<lambda>pages. Some (pages ! 1))
     [\<lparr>pageId = 3, url = ''http://localhost:4000/''\<rparr>, \<lparr>pageId = 4, url = ''http://localhost:4000/a''\<rparr>]) =
     Some \<lparr>pageId = 4, url = ''http://localhost:4000/a''\<rparr>"
proof -
  let ?p = "\<lparr>pageId = 3, url = ''http://localhost:4000/''\<rparr>"
  let ?q = "\<lparr>pageId = 4, url = ''http://localhost:4000/a''\<rparr>"
  have a: "selectPage (\<lambda>pages. None) [?p] = \<lparr>prompts = [], selectedPage = Some ?p\<rparr>"
    using selectPage_auto_or_prompt [of "[?p]" ?p "\<lambda>pages. None", THEN conjunct1] by simp
  have e: "[?p, ?q] = ?p # ?q # []" by simp
  note t = selectPage_auto_or_prompt [of "[?p, ?q]" _ _ ?p ?q "[]", THEN conjunct2, THEN mp, OF e]
  have b: "prompts (selectPage (\<lambda>pages. None) [?p, ?q]) = [[?p, ?q]]"
    using t [of "\<lambda>pages. None", THEN conjunct1] .
  have c: "selectedPage (selectPage (\<lambda>pages. None) [?p, ?q]) = Some ?p"
    using t [of "\<lambda>pages. None", THEN conjunct2, THEN conjunct1] by simp
  have d: "selectedPage (selectPage (\<lambda>pages. Some (pages ! 1)) [?p, ?q]) = Some ?q"
    using t [of "\<lambda>pages. Some (pages ! 1)", THEN conjunct2, THEN conjunct2, THEN spec, of ?q]
    by simp
  from a b c d show ?thesis by blast
qed

section \<open>Properties of the port proxy set-up\<close>

lemma detectBindAddress_range:
  "detectBindAddress debugPort lines = Some a \<Longrightarrow> a = ''127.0.0.1'' \<or> a = ''::1''"
  by (induction lines) (auto split: if_splits)

lemma poll_none:
  "i \<le> 10 \<Longrightarrow> \<forall>j. i \<le> j \<and> j < 10 \<longrightarrow> detectAt netstat debugPort j = None \<Longrightarrow>
   pollBindAddress netstat debugPort i = (None, concat (replicate (10 - i) [Sleep 500, Netstat]))"
proof (induction netstat debugPort i rule: pollBindAddress.induct)
  case (1 netstat debugPort i)
  show ?case
  proof (cases "i < 10")
    case False
    with "1.prems" show ?thesis by (subst pollBindAddress.simps) simp
  next
    case True
    with "1.prems" have d: "detectAt netstat debugPort i = None" by simp
    from "1.IH" [OF True d] "1.prems" True
    have ih: "pollBindAddress netstat debugPort (i + 1) =
              (None, concat (replicate (10 - (i + 1)) [Sleep 500, Netstat]))"
      by simp
    from True have "10 - i = Suc (10 - (i + 1))" by simp
    then have "concat (replicate (10 - i) [Sleep 500, Netstat]) =
      Sleep 500 # Netstat # concat (replicate (10 - (i + 1)) [Sleep 500, Netstat])"
      by (simp only: replicate_Suc concat.simps append_Cons append_Nil)
    with True d ih show ?thesis by (subst pollBindAddress.simps) simp
  qed
qed

lemma poll_some:
  "i \<le> m \<Longrightarrow> m < 10 \<Longrightarrow> detectAt netstat debugPort m = Some a \<Longrightarrow>
   \<forall>j. i \<le> j \<and> j < m \<longrightarrow> detectAt netstat debugPort j = None \<Longrightarrow>
   pollBindAddress netstat debugPort i = (Some a, concat (replicate (m + 1 - i) [Sleep 500, Netstat]))"
proof (induction netstat debugPort i rule: pollBindAddress.induct)
  case (1 netstat debugPort i)
  from "1.prems" have lt: "i < 10" by simp
  show ?case
  proof (cases "i = m")
    case True
    with "1.prems" lt show ?thesis by (subst pollBindAddress.simps) simp
  next
    case False
    with "1.prems" have im: "i + 1 \<le> m" by simp
    from False "1.prems" have d: "detectAt netstat debugPort i = None" by simp
    from "1.IH" [OF lt d im "1.prems"(2,3)] "1.prems"(4)
    have ih: "pollBindAddress netstat debugPort (i + 1) =
              (Some a, concat (replicate (m + 1 - (i + 1)) [Sleep 500, Netstat]))"
      by simp
    from im have "m + 1 - i = Suc (m + 1 - (i + 1))" by simp
    then have "concat (replicate (m + 1 - i) [Sleep 500, Netstat]) =
      Sleep 500 # Netstat # concat (replicate (m + 1 - (i + 1)) [Sleep 500, Netstat])"
      by (simp only: replicate_Suc concat.simps append_Cons append_Nil)
    with lt d ih show ?thesis by (subst pollBindAddress.simps) simp
  qed
qed

lemma detectAt_range:
  "detectAt netstat debugPort i = Some a \<Longrightarrow> a = ''127.0.0.1'' \<or> a = ''::1''"
  using detectBindAddress_range by (auto simp: detectAt_def split: option.splits)

text \<open>
  The launch, in terms of what the looks at netstat detect: after a successful start the
  bind address is polled with a 500 ms sleep before every look, at most 10 times,
  stopping at the first look that detects an address. When none of the 10 looks detects
  one, the address defaults to 127.0.0.1 and a v4tov4 rule is added; when look \<open>m\<close> is
  the first to detect address \<open>a\<close>, exactly \<open>m + 1\<close> looks are made and the rule added is
  v4tov6 for ::1 and v4tov4 for 127.0.0.1, with \<open>a\<close> as connect address. In both places
  (\<open>startChromeOnWindows\<close> and open mode) the v4tov4 and v4tov6 rules of the port are
  deleted right before the new rule is added.
\<close>

theorem port_proxy_setup:
  "(\<not> startProcess_throws env \<and> (\<forall>i<10. detectAt (netstat_answers env) debugPort i = None) \<longrightarrow>
      startChromeOnWindows env debugPort =
        (True,
         [PortProxyDelete V4toV4 debugPort, StartProcess debugPort] @
         concat (replicate 10 [Sleep 500, Netstat]) @
         [PortProxyDelete V4toV4 debugPort, PortProxyDelete V4toV6 debugPort,
          PortProxyAdd V4toV4 debugPort ''127.0.0.1'']) \<and>
      openModeLaunch env debugPort =
        [StartProcess debugPort] @ concat (replicate 10 [Sleep 500, Netstat]) @
        [PortProxyDelete V4toV4 debugPort, PortProxyDelete V4toV6 debugPort,
         PortProxyAdd V4toV4 debugPort ''127.0.0.1'']) \<and>
   (\<not> startProcess_throws env \<and> m < 10 \<and> detectAt (netstat_answers env) debugPort m = Some a \<and>
    (\<forall>j<m. detectAt (netstat_answers env) debugPort j = None) \<longrightarrow>
      (a = ''127.0.0.1'' \<or> a = ''::1'') \<and>
      startChromeOnWindows env debugPort =
        (True,
         [PortProxyDelete V4toV4 debugPort, StartProcess debugPort] @
         concat (replicate (m + 1) [Sleep 500, Netstat]) @
         [PortProxyDelete V4toV4 debugPort, PortProxyDelete V4toV6 debugPort,
          PortProxyAdd (if a = ''::1'' then V4toV6 else V4toV4) debugPort a]) \<and>
      openModeLaunch env debugPort =
        [StartProcess debugPort] @ concat (replicate (m + 1) [Sleep 500, Netstat]) @
        [PortProxyDelete V4toV4 debugPort, PortProxyDelete V4toV6 debugPort,
         PortProxyAdd (if a = ''::1'' then V4toV6 else V4toV4) debugPort a])"
proof (intro conjI impI)
  assume h: "\<not> startProcess_throws env \<and>
             (\<forall>i<10. detectAt (netstat_answers env) debugPort i = None)"
  then have "\<forall>j. 0 \<le> j \<and> j < 10 \<longrightarrow> detectAt (netstat_answers env) debugPort j = None"
    by simp
  from poll_none [OF _ this]
  have p: "pollBindAddress (netstat_answers env) debugPort 0 =
           (None, concat (replicate 10 [Sleep 500, Netstat]))"
    by simp
  from h p show "startChromeOnWindows env debugPort =
        (True,
         [PortProxyDelete V4toV4 debugPort, StartProcess debugPort] @
         concat (replicate 10 [Sleep 500, Netstat]) @
         [PortProxyDelete V4toV4 debugPort, PortProxyDelete V4toV6 debugPort,
          PortProxyAdd V4toV4 debugPort ''127.0.0.1''])"
    unfolding startChromeOnWindows_def by (simp add: Let_def)
  from h p show "openModeLaunch env debugPort =
        [StartProcess debugPort] @ concat (replicate 10 [Sleep 500, Netstat]) @
        [PortProxyDelete V4toV4 debugPort, PortProxyDelete V4toV6 debugPort,
         PortProxyAdd V4toV4 debugPort ''127.0.0.1'']"
    unfolding openModeLaunch_def by (simp add: Let_def)
next
  assume h: "\<not> startProcess_throws env \<and> m < 10 \<and>
             detectAt (netstat_answers env) debugPort m = Some a \<and>
             (\<forall>j<m. detectAt (netstat_answers env) debugPort j = None)"
  then have n: "\<forall>j. 0 \<le> j \<and> j < m \<longrightarrow> detectAt (netstat_answers env) debugPort j = None"
    by simp
  from h have m: "m < 10" and d: "detectAt (netstat_answers env) debugPort m = Some a"
    by simp_all
  from poll_some [OF _ m d n]
  have p: "pollBindAddress (netstat_answers env) debugPort 0 =
           (Some a, concat (replicate (m + 1) [Sleep 500, Netstat]))"
    by simp
  from detectAt_range [OF d] show r: "a = ''127.0.0.1'' \<or> a = ''::1''" .
  from h p r show "startChromeOnWindows env debugPort =
        (True,
         [PortProxyDelete V4toV4 debugPort, StartProcess debugPort] @
         concat (replicate (m + 1) [Sleep 500, Netstat]) @
         [PortProxyDelete V4toV4 debugPort, PortProxyDelete V4toV6 debugPort,
          PortProxyAdd (if a = ''::1'' then V4toV6 else V4toV4) debugPort a])"
    unfolding startChromeOnWindows_def by (auto simp add: Let_def)
  from h p show "openModeLaunch env debugPort =
        [StartProcess debugPort] @ concat (replicate (m + 1) [Sleep 500, Netstat]) @
        [PortProxyDelete V4toV4 debugPort, PortProxyDelete V4toV6 debugPort,
         PortProxyAdd (if a = ''::1'' then V4toV6 else V4toV4) debugPort a]"
    unfolding openModeLaunch_def by (simp add: Let_def)
qed

theorem port_proxy_setup_example:
  "detectAt (\<lambda>i. if i < 2 then Some ''  TCP    0.0.0.0:135    0.0.0.0:0    LISTENING    1008''
                        else Some ''  TCP    [::1]:9222    [::]:0    LISTENING    4321'') 9222 2 = Some ''::1'' \<and>
   startChromeOnWindows \<lparr>startProcess_throws = False, netstat_answers = (\<lambda>i. if i < 2 then Some ''  TCP    0.0.0.0:135    0.0.0.0:0    LISTENING    1008''
                        else Some ''  TCP    [::1]:9222    [::]:0    LISTENING    4321'')\<rparr> 9222 =
     (True,
      [PortProxyDelete V4toV4 9222, StartProcess 9222] @
      concat (replicate (2 + 1) [Sleep 500, Netstat]) @
      [PortProxyDelete V4toV4 9222, PortProxyDelete V4toV6 9222, PortProxyAdd V4toV6 9222 ''::1'']) \<and>
   openModeLaunch \<lparr>startProcess_throws = False, netstat_answers = (\<lambda>i. None)\<rparr> 9222 =
     [StartProcess 9222] @ concat (replicate 10 [Sleep 500, Netstat]) @
     [PortProxyDelete V4toV4 9222, PortProxyDelete V4toV6 9222,
      PortProxyAdd V4toV4 9222 ''127.0.0.1'']"
proof -
  let ?ns = "(\<lambda>i. if i < 2 then Some ''  TCP    0.0.0.0:135    0.0.0.0:0    LISTENING    1008''
                        else Some ''  TCP    [::1]:9222    [::]:0    LISTENING    4321'')"
  let ?envB = "\<lparr>startProcess_throws = False, netstat_answers = ?ns\<rparr>"
  let ?envA = "\<lparr>startProcess_throws = False, netstat_answers = (\<lambda>i. None)\<rparr>"
  have port: "decimal 9222 = ''9222''"
    by (simp add: decimal.simps digit_char_def)
  have d2: "detectAt ?ns 9222 2 = Some ''::1''"
    by (simp add: detectAt_def listeningLines_def port)
  have d01: "\<forall>j<2. detectAt ?ns 9222 j = None"
    by (simp add: detectAt_def listeningLines_def port)
  have hB: "\<not> startProcess_throws ?envB \<and> (2::nat) < 10 \<and>
            detectAt (netstat_answers ?envB) 9222 2 = Some ''::1'' \<and>
            (\<forall>j<2. detectAt (netstat_answers ?envB) 9222 j = None)"
    using d2 d01 by simp
  have hA: "\<not> startProcess_throws ?envA \<and>
            (\<forall>i<10. detectAt (netstat_answers ?envA) 9222 i = None)"
    by (simp add: detectAt_def)
  from port_proxy_setup [of ?envB 9222 2 "''::1''", THEN conjunct2, THEN mp, OF hB]
  have b: "startChromeOnWindows ?envB 9222 =
     (True,
      [PortProxyDelete V4toV4 9222, StartProcess 9222] @
      concat (replicate (2 + 1) [Sleep 500, Netstat]) @
      [PortProxyDelete V4toV4 9222, PortProxyDelete V4toV6 9222, PortProxyAdd V4toV6 9222 ''::1''])"
    by simp
  from port_proxy_setup [of ?envA 9222, THEN conjunct1, THEN mp, OF hA]
  have a: "openModeLaunch ?envA 9222 =
     [StartProcess 9222] @ concat (replicate 10 [Sleep 500, Netstat]) @
     [PortProxyDelete V4toV4 9222, PortProxyDelete V4toV6 9222,
      PortProxyAdd V4toV4 9222 ''127.0.0.1'']"
    by simp
  from d2 b a show ?thesis by blast
qed

lemma detectBindAddress_first:
  "detectBindAddress debugPort lines =
     (case find (\<lambda>l. str_includes l (''127.0.0.1:'' @ decimal debugPort) \<or>
                     str_includes l (''[::1]:'' @ decimal debugPort)) lines of
        None \<Rightarrow> None
      | Some l \<Rightarrow>
          Some (if str_includes l (''127.0.0.1:'' @ decimal debugPort) then ''127.0.0.1''
                else ''::1''))"
  by (induction lines) simp_all

text \<open>
  C5. The code breaks the claim where the digits of the debug port begin the digits of
  another listening port: a listener is recognised by the text '127.0.0.1:' or '[::1]:'
  followed by the port's digits anywhere in a LISTEN row, with nothing said about what
  follows the digits. With debug port 922, a row of a process listening on
  127.0.0.1:9222 is taken for an IPv4 listener on port 922: the polling stops at the
  first look and a v4tov4 rule to 127.0.0.1 is installed, although the only row of port
  922 itself shows the browser listening on [::1], which calls for a v4tov6 rule.
\<close>

theorem startChromeOnWindows_longer_port_taken_for_debug_port:
  "startChromeOnWindows
     \<lparr>startProcess_throws = False,
      netstat_answers = (\<lambda>i. Some
        (''  TCP    127.0.0.1:9222    0.0.0.0:0    LISTENING    4321'' @ [CHR 0x0D, CHR 0x0A] @
         ''  TCP    [::1]:922    [::]:0    LISTENING    5555'' @ [CHR 0x0D, CHR 0x0A]))\<rparr>
     922 =
     (True,
      [PortProxyDelete V4toV4 922, StartProcess 922, Sleep 500, Netstat,
       PortProxyDelete V4toV4 922, PortProxyDelete V4toV6 922,
       PortProxyAdd V4toV4 922 ''127.0.0.1'']) \<and>
   detectBindAddress 922 [''  TCP    [::1]:922    [::]:0    LISTENING    5555'' @ [CHR 0x0D]] =
     Some ''::1'' \<and>
   detectBindAddress 922 [''  TCP    127.0.0.1:9222    0.0.0.0:0    LISTENING    4321'' @ [CHR 0x0D]] =
     Some ''127.0.0.1''"
proof -
  let ?ns = "\<lambda>i::nat. Some
        (''  TCP    127.0.0.1:9222    0.0.0.0:0    LISTENING    4321'' @ [CHR 0x0D, CHR 0x0A] @
         ''  TCP    [::1]:922    [::]:0    LISTENING    5555'' @ [CHR 0x0D, CHR 0x0A])"
  have port: "decimal 922 = ''922''"
    by (simp add: decimal.simps digit_char_def)
  have d: "detectAt ?ns 922 0 = Some ''127.0.0.1''"
    by (simp add: detectAt_def listeningLines_def port)
  have p: "pollBindAddress ?ns 922 0 = (Some ''127.0.0.1'', [Sleep 500, Netstat])"
    by (subst pollBindAddress.simps, subst d, simp)
  have a: "startChromeOnWindows \<lparr>startProcess_throws = False, netstat_answers = ?ns\<rparr> 922 =
     (True,
      [PortProxyDelete V4toV4 922, StartProcess 922, Sleep 500, Netstat,
       PortProxyDelete V4toV4 922, PortProxyDelete V4toV6 922,
       PortProxyAdd V4toV4 922 ''127.0.0.1''])"
    unfolding startChromeOnWindows_def by (simp only: launch_env.simps p) (simp add: Let_def)
  have b: "detectBindAddress 922
             [''  TCP    [::1]:922    [::]:0    LISTENING    5555'' @ [CHR 0x0D]] = Some ''::1''"
    by (simp add: port)
  have c: "detectBindAddress 922
             [''  TCP    127.0.0.1:9222    0.0.0.0:0    LISTENING    4321'' @ [CHR 0x0D]] =
           Some ''127.0.0.1''"
    by (simp add: port)
  from a b c show ?thesis by blast
qed

section \<open>Properties of connecting and of the automatic fix\<close>

lemma retry_all_fail:
  "1 \<le> attempt \<Longrightarrow> attempt \<le> 5 \<Longrightarrow>
   \<forall>j. attempt \<le> j \<and> j \<le> 5 \<longrightarrow> outcome j \<noteq> Connected \<Longrightarrow>
   connectWithRetry outcome attempt lastError =
     (attempt_error (outcome 5), concat (map (\<lambda>j. attempt_calls (outcome j)) [attempt..<6]))"
proof (induction outcome attempt lastError rule: connectWithRetry.induct)
  case (1 outcome attempt lastError)
  have le: "attempt \<le> MAX_RETRIES" using "1.prems" by (simp add: MAX_RETRIES_def)
  have nc: "outcome attempt \<noteq> Connected" using "1.prems" by simp
  have up: "[attempt..<6] = attempt # [attempt + 1..<6]"
    using "1.prems" by (simp add: upt_conv_Cons)
  show ?case
  proof (cases "attempt = 5")
    case True
    have out: "connectWithRetry outcome 6 e = (e, [])" for e
      by (subst connectWithRetry.simps) (simp add: MAX_RETRIES_def)
    from True nc show ?thesis
      by (subst connectWithRetry.simps)
         (cases "outcome 5"; simp add: MAX_RETRIES_def RETRY_DELAY_def out attempt_error_def
            attempt_calls_def)
  next
    case False
    with "1.prems" have lt: "1 \<le> attempt + 1" "attempt + 1 \<le> 5"
      "\<forall>j. attempt + 1 \<le> j \<and> j \<le> 5 \<longrightarrow> outcome j \<noteq> Connected"
      by simp_all
    show ?thesis
    proof (cases "outcome attempt")
      case (ProbeThrows msg)
      from "1.IH"(1) [OF le ProbeThrows lt]
      show ?thesis
        by (subst connectWithRetry.simps)
           (simp add: le ProbeThrows up RETRY_DELAY_def attempt_calls_def)
    next
      case (ConnectThrows msg)
      from "1.IH"(2) [OF le ConnectThrows lt]
      show ?thesis
        by (subst connectWithRetry.simps)
           (simp add: le ConnectThrows up RETRY_DELAY_def attempt_calls_def)
    next
      case Connected
      with nc show ?thesis by simp
    qed
  qed
qed

lemma retry_success:
  "1 \<le> attempt \<Longrightarrow> attempt \<le> k \<Longrightarrow> k \<le> 5 \<Longrightarrow> outcome k = Connected \<Longrightarrow>
   \<forall>j. attempt \<le> j \<and> j < k \<longrightarrow> outcome j \<noteq> Connected \<Longrightarrow>
   connectWithRetry outcome attempt lastError =
     (None, concat (map (\<lambda>j. attempt_calls (outcome j)) [attempt..<Suc k]))"
proof (induction outcome attempt lastError rule: connectWithRetry.induct)
  case (1 outcome attempt lastError)
  have le: "attempt \<le> MAX_RETRIES" using "1.prems" by (simp add: MAX_RETRIES_def)
  have up: "[attempt..<Suc k] = attempt # [attempt + 1..<Suc k]"
    using "1.prems" by (simp add: upt_conv_Cons del: upt_Suc)
  show ?case
  proof (cases "attempt = k")
    case True
    with "1.prems" le show ?thesis
      by (subst connectWithRetry.simps) (simp add: RETRY_DELAY_def attempt_calls_def)
  next
    case False
    with "1.prems" have lt: "1 \<le> attempt + 1" "attempt + 1 \<le> k"
      "\<forall>j. attempt + 1 \<le> j \<and> j < k \<longrightarrow> outcome j \<noteq> Connected"
      by simp_all
    from False "1.prems" have nc: "outcome attempt \<noteq> Connected" by simp
    show ?thesis
    proof (cases "outcome attempt")
      case (ProbeThrows msg)
      from "1.IH"(1) [OF le ProbeThrows lt(1,2) "1.prems"(3,4) lt(3)]
      have "connectWithRetry outcome attempt lastError =
            (None, Delay 1500 # FetchVersion #
                   concat (map (\<lambda>j. attempt_calls (outcome j)) [attempt + 1..<Suc k]))"
        by (subst connectWithRetry.simps) (simp add: le ProbeThrows RETRY_DELAY_def del: upt_Suc)
      then show ?thesis
        by (subst up) (simp add: ProbeThrows attempt_calls_def del: upt_Suc)
    next
      case (ConnectThrows msg)
      from "1.IH"(2) [OF le ConnectThrows lt(1,2) "1.prems"(3,4) lt(3)]
      have "connectWithRetry outcome attempt lastError =
            (None, Delay 1500 # FetchVersion # PuppeteerConnect #
                   concat (map (\<lambda>j. attempt_calls (outcome j)) [attempt + 1..<Suc k]))"
        by (subst connectWithRetry.simps) (simp add: le ConnectThrows RETRY_DELAY_def del: upt_Suc)
      then show ?thesis
        by (subst up) (simp add: ConnectThrows attempt_calls_def del: upt_Suc)
    next
      case Connected
      with nc show ?thesis by simp
    qed
  qed
qed

lemma retry_calls:
  "e \<in> set (snd (connectWithRetry outcome attempt lastError)) \<Longrightarrow>
   e = Delay 1500 \<or> e = FetchVersion \<or> e = PuppeteerConnect"
proof (induction outcome attempt lastError rule: connectWithRetry.induct)
  case (1 outcome attempt lastError)
  show ?case
  proof (cases "attempt \<le> MAX_RETRIES")
    case False
    with "1.prems" show ?thesis by (subst (asm) connectWithRetry.simps) simp
  next
    case le: True
    show ?thesis
    proof (cases "outcome attempt")
      case (ProbeThrows msg)
      with le "1.prems"
      have "e = Delay 1500 \<or> e = FetchVersion \<or>
            e \<in> set (snd (connectWithRetry outcome (attempt + 1)
                             (Some (''Cannot reach Chrome debug endpoint: '' @ msg))))"
        by (subst (asm) connectWithRetry.simps)
           (auto simp: RETRY_DELAY_def split: prod.splits)
      with "1.IH"(1) [OF le ProbeThrows] show ?thesis by blast
    next
      case (ConnectThrows msg)
      with le "1.prems"
      have "e = Delay 1500 \<or> e = FetchVersion \<or> e = PuppeteerConnect \<or>
            e \<in> set (snd (connectWithRetry outcome (attempt + 1) (Some msg)))"
        by (subst (asm) connectWithRetry.simps)
           (auto simp: RETRY_DELAY_def split: prod.splits)
      with "1.IH"(2) [OF le ConnectThrows] show ?thesis by blast
    next
      case Connected
      with le "1.prems" show ?thesis
        by (subst (asm) connectWithRetry.simps) (auto simp: RETRY_DELAY_def)
    qed
  qed
qed

lemma openModeConnect_split:
  "\<exists>calls. (\<forall>e\<in>set calls. e = Delay 1500 \<or> e = FetchVersion \<or> e = PuppeteerConnect) \<and>
     (openModeConnect outcome diag shouldFix debugPort = calls \<or>
      openModeConnect outcome diag shouldFix debugPort =
        calls @ openModeConnectFailure diag shouldFix debugPort)"
proof -
  obtain err calls where r: "connectWithRetry outcome 1 None = (err, calls)"
    by (cases "connectWithRetry outcome 1 None")
  then have "\<forall>e\<in>set calls. e = Delay 1500 \<or> e = FetchVersion \<or> e = PuppeteerConnect"
    using retry_calls [of _ outcome 1 None] by simp
  moreover from r have "openModeConnect outcome diag shouldFix debugPort = calls \<or>
      openModeConnect outcome diag shouldFix debugPort =
        calls @ openModeConnectFailure diag shouldFix debugPort"
    by (cases err) (simp_all add: openModeConnect_def)
  ultimately show ?thesis by blast
qed

lemma failure_fix_gated:
  assumes "effs = RunWslDiagnostics debugPort #
     (if hasPortProxyConflict diag then
        AskYesNo #
        (if shouldFix then
           [PortProxyDelete V4toV4 (fixPort diag debugPort), KillManagedChromes True,
            ProcessExit 0]
         else [ProcessExit 1])
      else [ProcessExit 1])"
    and "e \<in> set effs" and "isFixCall e"
  shows "hasPortProxyConflict diag \<and> shouldFix \<and>
         effs = [RunWslDiagnostics debugPort] @ AskYesNo #
                [PortProxyDelete V4toV4 (fixPort diag debugPort), KillManagedChromes True,
                 ProcessExit 0]"
  using assms by (auto split: if_splits)

text \<open>
  C3. In open mode and in join mode alike, a call that removes a forwarding rule or kills
  Chrome is made after a failed connection only if diagnostics reported a port proxy
  conflict and the operator answered the yes/no question with yes, and then only after
  the question was asked: the question stands before it in the run and no such call
  stands before the question. With a conflict and the answer yes the run ends with the
  question, the removal of the rule for the port, the kill of the managed Chrome and exit
  code 0; with the answer no it ends with the question and exit code 1.
\<close>

theorem auto_fix_only_after_confirmation:
  "(\<forall>e\<in>set (openModeConnect outcome diag shouldFix debugPort).
      isFixCall e \<longrightarrow>
      hasPortProxyConflict diag \<and> shouldFix \<and>
      (\<exists>pre post.
         openModeConnect outcome diag shouldFix debugPort = pre @ AskYesNo # post \<and>
         (\<forall>x\<in>set pre. \<not> isFixCall x) \<and> e \<in> set post)) \<and>
   (\<forall>e\<in>set (joinModeConnectFailure message isWSL diag shouldFix debugPort).
      isFixCall e \<longrightarrow>
      hasPortProxyConflict diag \<and> shouldFix \<and>
      (\<exists>pre post.
         joinModeConnectFailure message isWSL diag shouldFix debugPort = pre @ AskYesNo # post \<and>
         (\<forall>x\<in>set pre. \<not> isFixCall x) \<and> e \<in> set post)) \<and>
   (hasPortProxyConflict diag \<longrightarrow>
      openModeConnectFailure diag True debugPort =
        [RunWslDiagnostics debugPort, AskYesNo,
         PortProxyDelete V4toV4 (fixPort diag debugPort), KillManagedChromes True, ProcessExit 0] \<and>
      openModeConnectFailure diag False debugPort =
        [RunWslDiagnostics debugPort, AskYesNo, ProcessExit 1]) \<and>
   (hasPortProxyConflict diag \<and> isConnectivityError message \<longrightarrow>
      joinModeConnectFailure message True diag True debugPort =
        [RunWslDiagnostics debugPort, AskYesNo,
         PortProxyDelete V4toV4 (fixPort diag debugPort), KillManagedChromes True, ProcessExit 0] \<and>
      joinModeConnectFailure message True diag False debugPort =
        [RunWslDiagnostics debugPort, AskYesNo, ProcessExit 1])"
proof (intro conjI ballI impI)
  fix e
  assume m: "e \<in> set (openModeConnect outcome diag shouldFix debugPort)" and f: "isFixCall e"
  from openModeConnect_split [of outcome diag shouldFix debugPort] obtain calls where
    c: "\<forall>x\<in>set calls. x = Delay 1500 \<or> x = FetchVersion \<or> x = PuppeteerConnect" and
    o: "openModeConnect outcome diag shouldFix debugPort = calls \<or>
        openModeConnect outcome diag shouldFix debugPort =
          calls @ openModeConnectFailure diag shouldFix debugPort"
    by blast
  from c have nf: "\<forall>x\<in>set calls. \<not> isFixCall x" by auto
  with m f o have o2: "openModeConnect outcome diag shouldFix debugPort =
          calls @ openModeConnectFailure diag shouldFix debugPort"
    and m2: "e \<in> set (openModeConnectFailure diag shouldFix debugPort)"
    by auto
  from failure_fix_gated [OF openModeConnectFailure_def m2 f]
  have g: "hasPortProxyConflict diag \<and> shouldFix \<and>
     openModeConnectFailure diag shouldFix debugPort =
       [RunWslDiagnostics debugPort] @ AskYesNo #
       [PortProxyDelete V4toV4 (fixPort diag debugPort), KillManagedChromes True, ProcessExit 0]" .
  then show "hasPortProxyConflict diag" and "shouldFix" by simp_all
  let ?pre = "calls @ [RunWslDiagnostics debugPort]"
  let ?post = "[PortProxyDelete V4toV4 (fixPort diag debugPort), KillManagedChromes True,
                ProcessExit 0]"
  from g have g3: "openModeConnectFailure diag shouldFix debugPort =
       [RunWslDiagnostics debugPort] @ AskYesNo # ?post" by blast
  have "openModeConnect outcome diag shouldFix debugPort = ?pre @ AskYesNo # ?post"
    unfolding o2 g3 by simp
  moreover from nf have "\<forall>x\<in>set ?pre. \<not> isFixCall x" by simp
  moreover from m2 f have "e \<in> set ?post" unfolding g3 by auto
  ultimately show "\<exists>pre post.
         openModeConnect outcome diag shouldFix debugPort = pre @ AskYesNo # post \<and>
         (\<forall>x\<in>set pre. \<not> isFixCall x) \<and> e \<in> set post"
    by blast
next
  fix e
  assume m: "e \<in> set (joinModeConnectFailure message isWSL diag shouldFix debugPort)"
    and f: "isFixCall e"
  from m f have w: "isConnectivityError message \<and> isWSL"
    by (auto simp: joinModeConnectFailure_def split: if_splits)
  then have j: "joinModeConnectFailure message isWSL diag shouldFix debugPort =
     RunWslDiagnostics debugPort #
     (if hasPortProxyConflict diag then
        AskYesNo #
        (if shouldFix then
           [PortProxyDelete V4toV4 (fixPort diag debugPort), KillManagedChromes True,
            ProcessExit 0]
         else [ProcessExit 1])
      else [ProcessExit 1])"
    by (simp add: joinModeConnectFailure_def)
  from failure_fix_gated [OF j m f]
  have g: "hasPortProxyConflict diag \<and> shouldFix \<and>
     joinModeConnectFailure message isWSL diag shouldFix debugPort =
       [RunWslDiagnostics debugPort] @ AskYesNo #
       [PortProxyDelete V4toV4 (fixPort diag debugPort), KillManagedChromes True, ProcessExit 0]" .
  then show "hasPortProxyConflict diag" and "shouldFix" by simp_all
  let ?pre = "[RunWslDiagnostics debugPort]"
  let ?post = "[PortProxyDelete V4toV4 (fixPort diag debugPort), KillManagedChromes True,
                ProcessExit 0]"
  from g have g3: "joinModeConnectFailure message isWSL diag shouldFix debugPort =
               ?pre @ AskYesNo # ?post"
    by blast
  note g3
  moreover have "\<forall>x\<in>set ?pre. \<not> isFixCall x" by simp
  moreover from m f have "e \<in> set ?post" unfolding g3 by auto
  ultimately show "\<exists>pre post.
         joinModeConnectFailure message isWSL diag shouldFix debugPort = pre @ AskYesNo # post \<and>
         (\<forall>x\<in>set pre. \<not> isFixCall x) \<and> e \<in> set post"
    by blast
next
  assume "hasPortProxyConflict diag"
  then show "openModeConnectFailure diag True debugPort =
        [RunWslDiagnostics debugPort, AskYesNo,
         PortProxyDelete V4toV4 (fixPort diag debugPort), KillManagedChromes True, ProcessExit 0]"
    and "openModeConnectFailure diag False debugPort =
        [RunWslDiagnostics debugPort, AskYesNo, ProcessExit 1]"
    by (simp_all add: openModeConnectFailure_def)
next
  assume "hasPortProxyConflict diag \<and> isConnectivityError message"
  then show "joinModeConnectFailure message True diag True debugPort =
        [RunWslDiagnostics debugPort, AskYesNo,
         PortProxyDelete V4toV4 (fixPort diag debugPort), KillManagedChromes True, ProcessExit 0]"
    and "joinModeConnectFailure message True diag False debugPort =
        [RunWslDiagnostics debugPort, AskYesNo, ProcessExit 1]"
    by (simp_all add: joinModeConnectFailure_def)
qed

theorem auto_fix_only_after_confirmation_witness:
  "PortProxyDelete V4toV4 9333 \<in>
     set (openModeConnect (\<lambda>attempt. ProbeThrows ''fetch failed'')
            \<lparr>hasPortProxyConflict = True, actualPort = Some 9333\<rparr> True 9222) \<and>
   isFixCall (PortProxyDelete V4toV4 9333) \<and>
   (\<exists>pre post.
      openModeConnect (\<lambda>attempt. ProbeThrows ''fetch failed'')
        \<lparr>hasPortProxyConflict = True, actualPort = Some 9333\<rparr> True 9222 = pre @ AskYesNo # post \<and>
      (\<forall>x\<in>set pre. \<not> isFixCall x) \<and> PortProxyDelete V4toV4 9333 \<in> set post) \<and>
   joinModeConnectFailure ''connect ECONNREFUSED 172.20.0.1:9222'' True
     \<lparr>hasPortProxyConflict = True, actualPort = None\<rparr> True 9222 =
     [RunWslDiagnostics 9222, AskYesNo, PortProxyDelete V4toV4 9222, KillManagedChromes True,
      ProcessExit 0] \<and>
   joinModeConnectFailure ''connect ECONNREFUSED 172.20.0.1:9222'' True
     \<lparr>hasPortProxyConflict = True, actualPort = None\<rparr> False 9222 =
     [RunWslDiagnostics 9222, AskYesNo, ProcessExit 1]"
proof -
  let ?out = "\<lambda>attempt::nat. ProbeThrows ''fetch failed''"
  let ?d = "\<lparr>hasPortProxyConflict = True, actualPort = Some 9333\<rparr>"
  let ?d2 = "\<lparr>hasPortProxyConflict = True, actualPort = None\<rparr>"
  have run: "openModeConnect ?out ?d True 9222 =
     concat (replicate 5 [Delay 1500, FetchVersion]) @
     [RunWslDiagnostics 9222, AskYesNo, PortProxyDelete V4toV4 9333, KillManagedChromes True,
      ProcessExit 0]"
    by (simp add: openModeConnect_def connectWithRetry.simps MAX_RETRIES_def RETRY_DELAY_def
        openModeConnectFailure_def fixPort_def eval_nat_numeral)
  then have m: "PortProxyDelete V4toV4 9333 \<in> set (openModeConnect ?out ?d True 9222)"
    by simp
  have f: "isFixCall (PortProxyDelete V4toV4 9333)" by simp
  from auto_fix_only_after_confirmation [of ?out ?d True 9222, THEN conjunct1, THEN bspec, OF m,
      THEN mp, OF f]
  have a: "\<exists>pre post.
      openModeConnect ?out ?d True 9222 = pre @ AskYesNo # post \<and>
      (\<forall>x\<in>set pre. \<not> isFixCall x) \<and> PortProxyDelete V4toV4 9333 \<in> set post"
    by blast
  have h: "hasPortProxyConflict ?d2 \<and> isConnectivityError ''connect ECONNREFUSED 172.20.0.1:9222''"
    by (simp add: isConnectivityError_def)
  from auto_fix_only_after_confirmation [of _ ?d2 _ 9222 "''connect ECONNREFUSED 172.20.0.1:9222''",
      THEN conjunct2, THEN conjunct2, THEN conjunct2, THEN mp, OF h]
  have j: "joinModeConnectFailure ''connect ECONNREFUSED 172.20.0.1:9222'' True ?d2 True 9222 =
     [RunWslDiagnostics 9222, AskYesNo, PortProxyDelete V4toV4 9222, KillManagedChromes True,
      ProcessExit 0] \<and>
   joinModeConnectFailure ''connect ECONNREFUSED 172.20.0.1:9222'' True ?d2 False 9222 =
     [RunWslDiagnostics 9222, AskYesNo, ProcessExit 1]"
    by (simp add: fixPort_def)
  from m f a j show ?thesis by blast
qed

text \<open>
  C4. The retry loop of open mode makes at most 5 attempts, each one a 1500 ms delay, a
  probe of /json/version and, unless the probe threw, a puppeteer connection; a probe
  that throws leaves the error 'Cannot reach Chrome debug endpoint: ...' and the
  connection is not tried in that attempt. The loop stops at the first attempt that
  connects. When none of the 5 attempts connects, exactly 5 attempts are made, the last
  attempt's error is kept, and the run goes on with \<open>RunWslDiagnostics\<close> before the process
  exits. Join mode, which connects once, runs the diagnostics as well when the
  connection fails with a connectivity error under WSL.
\<close>

theorem connect_retries_then_diagnostics:
  "((\<forall>j. 1 \<le> j \<and> j \<le> 5 \<longrightarrow> outcome j \<noteq> Connected) \<longrightarrow>
      connectWithRetry outcome 1 None =
        (attempt_error (outcome 5), concat (map (\<lambda>j. attempt_calls (outcome j)) [1..<6])) \<and>
      attempt_error (outcome 5) \<noteq> None \<and>
      openModeConnect outcome diag shouldFix debugPort =
        concat (map (\<lambda>j. attempt_calls (outcome j)) [1..<6]) @
        openModeConnectFailure diag shouldFix debugPort) \<and>
   (1 \<le> k \<and> k \<le> 5 \<and> outcome k = Connected \<and>
    (\<forall>j. 1 \<le> j \<and> j < k \<longrightarrow> outcome j \<noteq> Connected) \<longrightarrow>
      connectWithRetry outcome 1 None =
        (None, concat (map (\<lambda>j. attempt_calls (outcome j)) [1..<Suc k])) \<and>
      openModeConnect outcome diag shouldFix debugPort =
        concat (map (\<lambda>j. attempt_calls (outcome j)) [1..<Suc k])) \<and>
   attempt_calls (ProbeThrows msg) = [Delay 1500, FetchVersion] \<and>
   attempt_error (ProbeThrows msg) = Some (''Cannot reach Chrome debug endpoint: '' @ msg) \<and>
   attempt_calls (ConnectThrows msg) = [Delay 1500, FetchVersion, PuppeteerConnect] \<and>
   attempt_error (ConnectThrows msg) = Some msg \<and>
   attempt_calls Connected = [Delay 1500, FetchVersion, PuppeteerConnect] \<and>
   (\<exists>rest. openModeConnectFailure diag shouldFix debugPort = RunWslDiagnostics debugPort # rest \<and>
      last (RunWslDiagnostics debugPort # rest) \<in> {ProcessExit 0, ProcessExit 1}) \<and>
   (isConnectivityError message \<longrightarrow>
      (\<exists>rest. joinModeConnectFailure message True diag shouldFix debugPort =
         RunWslDiagnostics debugPort # rest))"
proof (intro conjI impI)
  assume h: "\<forall>j. 1 \<le> j \<and> j \<le> 5 \<longrightarrow> outcome j \<noteq> Connected"
  from retry_all_fail [OF _ _ h, of None]
  show r: "connectWithRetry outcome 1 None =
        (attempt_error (outcome 5), concat (map (\<lambda>j. attempt_calls (outcome j)) [1..<6]))"
    by simp
  from h have "outcome 5 \<noteq> Connected" by simp
  then show e: "attempt_error (outcome 5) \<noteq> None"
    by (cases "outcome 5") (simp_all add: attempt_error_def)
  then obtain err where "attempt_error (outcome 5) = Some err" by blast
  with r show "openModeConnect outcome diag shouldFix debugPort =
        concat (map (\<lambda>j. attempt_calls (outcome j)) [1..<6]) @
        openModeConnectFailure diag shouldFix debugPort"
    by (simp add: openModeConnect_def)
next
  assume h: "1 \<le> k \<and> k \<le> 5 \<and> outcome k = Connected \<and>
    (\<forall>j. 1 \<le> j \<and> j < k \<longrightarrow> outcome j \<noteq> Connected)"
  then have k: "1 \<le> k" "k \<le> 5" "outcome k = Connected"
    "\<forall>j. 1 \<le> j \<and> j < k \<longrightarrow> outcome j \<noteq> Connected"
    by simp_all
  from retry_success [OF _ k, of None]
  show r: "connectWithRetry outcome 1 None =
        (None, concat (map (\<lambda>j. attempt_calls (outcome j)) [1..<Suc k]))"
    by simp
  then show "openModeConnect outcome diag shouldFix debugPort =
        concat (map (\<lambda>j. attempt_calls (outcome j)) [1..<Suc k])"
    by (simp add: openModeConnect_def del: upt_Suc)
next
  show "attempt_calls (ProbeThrows msg) = [Delay 1500, FetchVersion]"
    by (simp add: attempt_calls_def)
next
  show "attempt_error (ProbeThrows msg) = Some (''Cannot reach Chrome debug endpoint: '' @ msg)"
    by (simp add: attempt_error_def)
next
  show "attempt_calls (ConnectThrows msg) = [Delay 1500, FetchVersion, PuppeteerConnect]"
    by (simp add: attempt_calls_def)
next
  show "attempt_error (ConnectThrows msg) = Some msg"
    by (simp add: attempt_error_def)
next
  show "attempt_calls Connected = [Delay 1500, FetchVersion, PuppeteerConnect]"
    by (simp add: attempt_calls_def)
next
  show "\<exists>rest. openModeConnectFailure diag shouldFix debugPort = RunWslDiagnostics debugPort # rest \<and>
      last (RunWslDiagnostics debugPort # rest) \<in> {ProcessExit 0, ProcessExit 1}"
    by (simp add: openModeConnectFailure_def)
next
  assume "isConnectivityError message"
  then show "\<exists>rest. joinModeConnectFailure message True diag shouldFix debugPort =
         RunWslDiagnostics debugPort # rest"
    by (simp add: joinModeConnectFailure_def)
qed

theorem connect_retries_then_diagnostics_witness:
  "connectWithRetry (\<lambda>attempt. ProbeThrows ''fetch failed'') 1 None =
     (Some ''Cannot reach Chrome debug endpoint: fetch failed'',
      [Delay 1500, FetchVersion, Delay 1500, FetchVersion, Delay 1500, FetchVersion,
       Delay 1500, FetchVersion, Delay 1500, FetchVersion]) \<and>
   openModeConnect (\<lambda>attempt. ProbeThrows ''fetch failed'')
     \<lparr>hasPortProxyConflict = False, actualPort = None\<rparr> False 9222 =
     [Delay 1500, FetchVersion, Delay 1500, FetchVersion, Delay 1500, FetchVersion,
      Delay 1500, FetchVersion, Delay 1500, FetchVersion,
      RunWslDiagnostics 9222, ProcessExit 1] \<and>
   connectWithRetry
     (\<lambda>attempt. if attempt < 3 then ConnectThrows ''connect ECONNREFUSED'' else Connected) 1 None =
     (None,
      [Delay 1500, FetchVersion, PuppeteerConnect, Delay 1500, FetchVersion, PuppeteerConnect,
       Delay 1500, FetchVersion, PuppeteerConnect])"
proof -
  let ?fail = "\<lambda>attempt::nat. ProbeThrows ''fetch failed''"
  let ?third = "\<lambda>attempt::nat. if attempt < 3 then ConnectThrows ''connect ECONNREFUSED'' else Connected"
  let ?d = "\<lparr>hasPortProxyConflict = False, actualPort = None\<rparr>"
  have u6: "[Suc 0..<6] = [1, 2, 3, 4, 5::nat]" by (simp add: upt_rec)
  have u3: "[Suc 0..<4] = [1, 2, 3::nat]" by (simp add: upt_rec)
  have h: "\<forall>j. 1 \<le> j \<and> j \<le> 5 \<longrightarrow> ?fail j \<noteq> Connected" by simp
  note t = connect_retries_then_diagnostics [of ?fail ?d False 9222, THEN conjunct1, THEN mp, OF h]
  from t [THEN conjunct1]
  have a: "connectWithRetry ?fail 1 None =
     (Some ''Cannot reach Chrome debug endpoint: fetch failed'',
      [Delay 1500, FetchVersion, Delay 1500, FetchVersion, Delay 1500, FetchVersion,
       Delay 1500, FetchVersion, Delay 1500, FetchVersion])"
    by (simp add: u6 attempt_error_def attempt_calls_def)
  from t [THEN conjunct2, THEN conjunct2]
  have b: "openModeConnect ?fail ?d False 9222 =
     [Delay 1500, FetchVersion, Delay 1500, FetchVersion, Delay 1500, FetchVersion,
      Delay 1500, FetchVersion, Delay 1500, FetchVersion,
      RunWslDiagnostics 9222, ProcessExit 1]"
    by (simp add: u6 attempt_calls_def openModeConnectFailure_def)
  have k: "(1::nat) \<le> 3 \<and> (3::nat) \<le> 5 \<and> ?third 3 = Connected \<and>
           (\<forall>j. 1 \<le> j \<and> j < 3 \<longrightarrow> ?third j \<noteq> Connected)"
    by simp
  from connect_retries_then_diagnostics [where outcome = ?third and k = 3, THEN conjunct2, THEN conjunct1, THEN mp, OF k,
      THEN conjunct1]
  have c: "connectWithRetry ?third 1 None =
     (None,
      [Delay 1500, FetchVersion, PuppeteerConnect, Delay 1500, FetchVersion, PuppeteerConnect,
       Delay 1500, FetchVersion, PuppeteerConnect])"
    by (simp add: u3 attempt_calls_def)
  from a b c show ?thesis by blast
qed

section \<open>Properties of the shutdown path\<close>




section \<open>Properties of the instance prompt\<close>

lemma handleKey_char:
  assumes "keypress_char str key = Some char"
  shows "handleKey items str key =
     (if char = ''q'' then Resolved None
      else (case parseInt char of
              None \<Rightarrow> Resolved None
            | Some num \<Rightarrow>
                if 1 \<le> num \<and> num \<le> int (length items)
                then Resolved (Some (item_port (items ! nat (num - 1))))
                else Resolved None))"
proof -
  from assms obtain k where k: "key = Some k"
    by (cases key) (simp_all add: keypress_char_def)
  show ?thesis
  proof (cases "name k")
    case None
    with assms k obtain raw where "str = Some raw" "char = toLowerCase raw"
      by (cases str) (auto simp: keypress_char_def)
    with k None show ?thesis by (simp add: handleKey_def Let_def)
  next
    case (Some n)
    show ?thesis
    proof (cases "n = []")
      case True
      with assms k Some obtain raw where "str = Some raw" "char = toLowerCase raw"
        by (cases str) (auto simp: keypress_char_def)
      with k Some True show ?thesis by (simp add: handleKey_def Let_def)
    next
      case False
      with assms k Some have "char = toLowerCase n"
        by (simp add: keypress_char_def)
      with k Some False show ?thesis by (simp add: handleKey_def Let_def)
    qed
  qed
qed

text \<open>
  What the prompt resolves to. \<open>askUserToSelectChromeInstance\<close> resolves to null for an
  empty list and, without printing the prompt, to the port of the only item of a
  one-element list. For a longer list it prints the prompt, and on a keypress that
  carries a key object and a character (the key's name, else \<open>str\<close>, in lower case) it
  resolves to null when the character is 'q' or \<open>parseInt\<close> of it is not an integer from
  1 to the length of the list, and to the port of the item with that number otherwise; it
  never falls back to the first item. The guard of the handler returns without resolving
  on an event without a key object.
\<close>

theorem askUserToSelectChromeInstance_outcomes:
  "askUserToSelectChromeInstance [] str key = (False, Resolved None) \<and>
   askUserToSelectChromeInstance [only] str key = (False, Resolved (Some (item_port only))) \<and>
   (items = a # b # others \<and> keypress_char str key = Some char \<longrightarrow>
      fst (askUserToSelectChromeInstance items str key) = True \<and>
      (char = ''q'' \<or>
       (case parseInt char of None \<Rightarrow> True | Some num \<Rightarrow> num < 1 \<or> int (length items) < num) \<longrightarrow>
         snd (askUserToSelectChromeInstance items str key) = Resolved None) \<and>
      (\<forall>num. char \<noteq> ''q'' \<and> parseInt char = Some num \<and> 1 \<le> num \<and> num \<le> int (length items) \<longrightarrow>
         snd (askUserToSelectChromeInstance items str key) =
           Resolved (Some (item_port (items ! nat (num - 1)))))) \<and>
   (items = a # b # others \<longrightarrow>
      askUserToSelectChromeInstance items str None = (True, Pending))"
proof (intro conjI impI allI)
  show "askUserToSelectChromeInstance [] str key = (False, Resolved None)"
    by (simp add: askUserToSelectChromeInstance_def)
next
  show "askUserToSelectChromeInstance [only] str key = (False, Resolved (Some (item_port only)))"
    by (simp add: askUserToSelectChromeInstance_def)
next
  assume h: "items = a # b # others \<and> keypress_char str key = Some char"
  then show "fst (askUserToSelectChromeInstance items str key) = True"
    by (simp add: askUserToSelectChromeInstance_def)
next
  assume h: "items = a # b # others \<and> keypress_char str key = Some char"
    and c: "char = ''q'' \<or>
       (case parseInt char of None \<Rightarrow> True | Some num \<Rightarrow> num < 1 \<or> int (length items) < num)"
  from h have s: "snd (askUserToSelectChromeInstance items str key) = handleKey items str key"
    by (simp add: askUserToSelectChromeInstance_def)
  from h have k: "keypress_char str key = Some char" by simp
  from c show "snd (askUserToSelectChromeInstance items str key) = Resolved None"
    unfolding s handleKey_char [OF k]
    by (cases "parseInt char") auto
next
  fix num
  assume h: "items = a # b # others \<and> keypress_char str key = Some char"
    and c: "char \<noteq> ''q'' \<and> parseInt char = Some num \<and> 1 \<le> num \<and> num \<le> int (length items)"
  from h have s: "snd (askUserToSelectChromeInstance items str key) = handleKey items str key"
    by (simp add: askUserToSelectChromeInstance_def)
  from h have k: "keypress_char str key = Some char" by simp
  from c show "snd (askUserToSelectChromeInstance items str key) =
           Resolved (Some (item_port (items ! nat (num - 1))))"
    unfolding s handleKey_char [OF k] by simp
next
  assume "items = a # b # others"
  then show "askUserToSelectChromeInstance items str None = (True, Pending)"
    by (simp add: askUserToSelectChromeInstance_def handleKey_def)
qed

theorem askUserToSelectChromeInstance_outcomes_example:
  "keypress_char (Some ''2'') (Some \<lparr>name = Some ''2''\<rparr>) = Some ''2'' \<and>
   parseInt ''2'' = Some 2 \<and>
   snd (askUserToSelectChromeInstance
          [\<lparr>item_port = 9222, label = ''9222''\<rparr>, \<lparr>item_port = 9223, label = ''9223''\<rparr>]
          (Some ''2'') (Some \<lparr>name = Some ''2''\<rparr>)) = Resolved (Some 9223) \<and>
   keypress_char (Some ''Q'') (Some \<lparr>name = Some ''q''\<rparr>) = Some ''q'' \<and>
   snd (askUserToSelectChromeInstance
          [\<lparr>item_port = 9222, label = ''9222''\<rparr>, \<lparr>item_port = 9223, label = ''9223''\<rparr>]
          (Some ''Q'') (Some \<lparr>name = Some ''q''\<rparr>)) = Resolved None \<and>
   keypress_char (Some ''3'') (Some \<lparr>name = Some ''3''\<rparr>) = Some ''3'' \<and>
   parseInt ''3'' = Some 3 \<and>
   snd (askUserToSelectChromeInstance
          [\<lparr>item_port = 9222, label = ''9222''\<rparr>, \<lparr>item_port = 9223, label = ''9223''\<rparr>]
          (Some ''3'') (Some \<lparr>name = Some ''3''\<rparr>)) = Resolved None"
proof -
  let ?a = "\<lparr>item_port = 9222, label = ''9222''\<rparr>"
  let ?b = "\<lparr>item_port = 9223, label = ''9223''\<rparr>"
  let ?items = "[?a, ?b]"
  have e: "?items = ?a # ?b # []" by simp
  have k2: "keypress_char (Some ''2'') (Some \<lparr>name = Some ''2''\<rparr>) = Some ''2''"
    by (simp add: keypress_char_def toLowerCase_def toLowerCase_char_def)
  have kq: "keypress_char (Some ''Q'') (Some \<lparr>name = Some ''q''\<rparr>) = Some ''q''"
    by (simp add: keypress_char_def toLowerCase_def toLowerCase_char_def)
  have k3: "keypress_char (Some ''3'') (Some \<lparr>name = Some ''3''\<rparr>) = Some ''3''"
    by (simp add: keypress_char_def toLowerCase_def toLowerCase_char_def)
  have p2: "parseInt ''2'' = Some 2"
    by (simp add: parseInt_def isSpace_def isDigit_def decimal_value_def digit_value_def)
  have p3: "parseInt ''3'' = Some 3"
    by (simp add: parseInt_def isSpace_def isDigit_def decimal_value_def digit_value_def)
  have h2: "?items = ?a # ?b # [] \<and>
            keypress_char (Some ''2'') (Some \<lparr>name = Some ''2''\<rparr>) = Some ''2''"
    using k2 by simp
  have c2: "''2'' \<noteq> ''q'' \<and> parseInt ''2'' = Some 2 \<and> (1::int) \<le> 2 \<and> 2 \<le> int (length ?items)"
    using p2 by simp
  from askUserToSelectChromeInstance_outcomes [where items = ?items and a = ?a and b = ?b
      and others = "[]" and str = "Some ''2''" and key = "Some \<lparr>name = Some ''2''\<rparr>"
      and char = "''2''", THEN conjunct2, THEN conjunct2, THEN conjunct1, THEN mp, OF h2,
      THEN conjunct2, THEN conjunct2, THEN spec, THEN mp, OF c2]
  have r2: "snd (askUserToSelectChromeInstance ?items (Some ''2'') (Some \<lparr>name = Some ''2''\<rparr>)) =
            Resolved (Some 9223)"
    by simp
  have hq: "?items = ?a # ?b # [] \<and>
            keypress_char (Some ''Q'') (Some \<lparr>name = Some ''q''\<rparr>) = Some ''q''"
    using kq by simp
  have cq: "''q'' = ''q'' \<or>
       (case parseInt ''q'' of None \<Rightarrow> True | Some num \<Rightarrow> num < 1 \<or> int (length ?items) < num)"
    by simp
  from askUserToSelectChromeInstance_outcomes [where items = ?items and a = ?a and b = ?b
      and others = "[]" and str = "Some ''Q''" and key = "Some \<lparr>name = Some ''q''\<rparr>"
      and char = "''q''", THEN conjunct2, THEN conjunct2, THEN conjunct1, THEN mp, OF hq,
      THEN conjunct2, THEN conjunct1, THEN mp, OF cq]
  have rq: "snd (askUserToSelectChromeInstance ?items (Some ''Q'') (Some \<lparr>name = Some ''q''\<rparr>)) =
            Resolved None" .
  have h3: "?items = ?a # ?b # [] \<and>
            keypress_char (Some ''3'') (Some \<lparr>name = Some ''3''\<rparr>) = Some ''3''"
    using k3 by simp
  have c3: "''3'' = ''q'' \<or>
       (case parseInt ''3'' of None \<Rightarrow> True | Some num \<Rightarrow> num < 1 \<or> int (length ?items) < num)"
    using p3 by simp
  from askUserToSelectChromeInstance_outcomes [where items = ?items and a = ?a and b = ?b
      and others = "[]" and str = "Some ''3''" and key = "Some \<lparr>name = Some ''3''\<rparr>"
      and char = "''3''", THEN conjunct2, THEN conjunct2, THEN conjunct1, THEN mp, OF h3,
      THEN conjunct2, THEN conjunct1, THEN mp, OF c3]
  have r3: "snd (askUserToSelectChromeInstance ?items (Some ''3'') (Some \<lparr>name = Some ''3''\<rparr>)) =
            Resolved None" .
  from k2 p2 r2 kq rq k3 p3 r3 show ?thesis by blast
qed

text \<open>
  C10. The code breaks the claim on a keypress event whose key object has no name and
  whose \<open>str\<close> is undefined, which is not an integer in the range of the list:
  \<^verbatim>\<open>(key.name || str).toLowerCase()\<close> throws, so the promise is not resolved to null,
  nor to anything. (The menu handler of the same module reads the same event with
  \<^verbatim>\<open>(key?.name || str)?.toLowerCase()\<close>.)
\<close>

theorem askUserToSelectChromeInstance_nameless_key_throws:
  "askUserToSelectChromeInstance
     [\<lparr>item_port = 9222, label = ''9222''\<rparr>, \<lparr>item_port = 9223, label = ''9223''\<rparr>]
     None (Some \<lparr>name = None\<rparr>) = (True, Threw) \<and>
   (Threw :: nat option promise) \<noteq> Resolved None"
  by (simp add: askUserToSelectChromeInstance_def handleKey_def)

section \<open>Properties of findFreeDebugPort\<close>

lemma findFreeDebugPort_loop_scan:
  assumes "startPort \<le> p" and "p \<le> startPort + 100"
    and "\<forall>q. startPort \<le> q \<and> q < p \<longrightarrow> q \<in> usedPorts"
  shows "(let r = findFreeDebugPort_loop usedPorts startPort p in
          startPort \<le> r \<and> r \<le> startPort + 99 \<and>
          (\<forall>q. startPort \<le> q \<and> q < r \<longrightarrow> q \<in> usedPorts) \<and>
          (r \<notin> usedPorts \<or>
           (r = startPort \<and> (\<forall>q. startPort \<le> q \<and> q < startPort + 100 \<longrightarrow> q \<in> usedPorts))))"
  using assms
proof (induction usedPorts startPort p rule: findFreeDebugPort_loop.induct)
  case (1 usedPorts startPort p)
  show ?case
  proof (cases "p < startPort + 100")
    case False
    with "1.prems" have "p = startPort + 100" by simp
    with "1.prems" False show ?thesis
      by (subst findFreeDebugPort_loop.simps) (simp add: Let_def)
  next
    case inrange: True
    show ?thesis
    proof (cases "p \<in> usedPorts")
      case False
      with inrange "1.prems" show ?thesis
        by (subst findFreeDebugPort_loop.simps) (simp add: Let_def)
    next
      case True
      have "\<forall>q. startPort \<le> q \<and> q < p + 1 \<longrightarrow> q \<in> usedPorts"
        using "1.prems"(3) True by (auto simp: less_Suc_eq)
      with "1.IH" [OF inrange] True "1.prems" inrange
      have "(let r = findFreeDebugPort_loop usedPorts startPort (p + 1) in
          startPort \<le> r \<and> r \<le> startPort + 99 \<and>
          (\<forall>q. startPort \<le> q \<and> q < r \<longrightarrow> q \<in> usedPorts) \<and>
          (r \<notin> usedPorts \<or>
           (r = startPort \<and> (\<forall>q. startPort \<le> q \<and> q < startPort + 100 \<longrightarrow> q \<in> usedPorts))))"
        by simp
      moreover have "findFreeDebugPort_loop usedPorts startPort p =
                     findFreeDebugPort_loop usedPorts startPort (p + 1)"
        using inrange True by (subst findFreeDebugPort_loop.simps) simp
      ultimately show ?thesis by simp
    qed
  qed
qed

text \<open>
  C8. For every instance list and start port, \<open>findFreeDebugPort\<close> returns a port \<open>r\<close> in
  \<open>[startPort, startPort + 99]\<close>; every port from \<open>startPort\<close> up to \<open>r\<close> (exclusive) is
  claimed by an instance (the scan is linear and stops at the first free port); and \<open>r\<close>
  is either not claimed, or it is \<open>startPort\<close> itself, returned as the last resort after
  all 100 ports \<open>startPort .. startPort + 99\<close> were found claimed.
\<close>

theorem findFreeDebugPort_first_free:
  "(let r = findFreeDebugPort instances startPort; usedPorts = set (map port instances) in
      startPort \<le> r \<and> r \<le> startPort + 99 \<and>
      (\<forall>q. startPort \<le> q \<and> q < r \<longrightarrow> q \<in> usedPorts) \<and>
      (r \<notin> usedPorts \<or>
       (r = startPort \<and> (\<forall>q. startPort \<le> q \<and> q < startPort + 100 \<longrightarrow> q \<in> usedPorts))))"
proof -
  have "startPort \<le> startPort" and "startPort \<le> startPort + 100"
    and "\<forall>q. startPort \<le> q \<and> q < startPort \<longrightarrow> q \<in> set (map port instances)"
    by auto
  from findFreeDebugPort_loop_scan [OF this]
  show ?thesis
    unfolding findFreeDebugPort_def Let_def .
qed

theorem findFreeDebugPort_first_free_witness:
  "(9222::nat) \<le> 9223 \<and>
   9223 < findFreeDebugPort [\<lparr>port = 9222, profile = ''default'', bindAddress = ''127.0.0.1''\<rparr>,
        \<lparr>port = 9223, profile = ''default'', bindAddress = ''127.0.0.1''\<rparr>] 9222 \<and>
   9223 \<in> set (map port [\<lparr>port = 9222, profile = ''default'', bindAddress = ''127.0.0.1''\<rparr>,
        \<lparr>port = 9223, profile = ''default'', bindAddress = ''127.0.0.1''\<rparr>]) \<and>
   findFreeDebugPort [\<lparr>port = 9222, profile = ''default'', bindAddress = ''127.0.0.1''\<rparr>,
        \<lparr>port = 9223, profile = ''default'', bindAddress = ''127.0.0.1''\<rparr>] 9222 = 9224"
  using findFreeDebugPort_first_free [of "[\<lparr>port = 9222, profile = ''default'', bindAddress = ''127.0.0.1''\<rparr>,
        \<lparr>port = 9223, profile = ''default'', bindAddress = ''127.0.0.1''\<rparr>]" 9222]
  by (simp add: findFreeDebugPort_def findFreeDebugPort_loop.simps)

end
